theory Spec2Isabelle
  imports Complex_Main "HOL-Library.Sublist" "HOL-Library.AList"
begin

section \<open>Errors\<close>

text \<open>
  Every exception that \<^verbatim>\<open>peft/tuners/lora.py\<close> can raise is a value. The string
  carried by an error is the attribute name or the message of the source.
\<close>

datatype error =
    AttributeError string
  | TypeError string
  | ValueError string
  | NotImplementedError string
  | ImportError string
  | EinopsError string
  | RuntimeError string
  | UnboundLocalError string

definition bind_err :: "error + 'a \<Rightarrow> ('a \<Rightarrow> error + 'b) \<Rightarrow> error + 'b" where
  "bind_err m f = (case m of Inl e \<Rightarrow> Inl e | Inr v \<Rightarrow> f v)"

section \<open>Tensors\<close>

text \<open>
  A tensor is its shape and its entries in row-major order, as a contiguous torch tensor is.
  Entries are real numbers: the arithmetic of the model is exact, and the dtype casts of the
  source (\<^verbatim>\<open>.to(dtype)\<close>) are the identity. The source computes in floating point; its
  rounding, overflow and NaN are outside the model, so a fact about the values of a result is
  a fact of the exact-arithmetic reading of the source, while which exception is raised and
  the shape of a result do not depend on the arithmetic. \<open>ravel\<close> is the row-major offset of a
  multi-index and \<open>unravel\<close> its inverse; \<open>entry t idx\<close> reads the entry at a multi-index
  and \<open>build shp f\<close> is the tensor of shape \<open>shp\<close> whose entry at \<open>idx\<close> is \<open>f idx\<close>.
  A value whose list of entries does not have the length its shape says is not a torch
  tensor; every operation below returns well-formed tensors and reads its arguments in range
  when they are well formed.
\<close>

datatype tensor = Tensor (shape: "nat list") (vals: "real list")

fun ravel :: "nat list \<Rightarrow> nat list \<Rightarrow> nat" where
  "ravel (n # ns) (i # js) = i * prod_list ns + ravel ns js"
| "ravel _ _ = 0"

fun unravel :: "nat list \<Rightarrow> nat \<Rightarrow> nat list" where
  "unravel [] i = []"
| "unravel (n # ns) i = (i div prod_list ns) # unravel ns (i mod prod_list ns)"

definition valid_index :: "nat list \<Rightarrow> nat list \<Rightarrow> bool" where
  "valid_index shp idx = list_all2 (\<lambda>i n. i < n) idx shp"

definition entry :: "tensor \<Rightarrow> nat list \<Rightarrow> real" where
  "entry t idx = vals t ! ravel (shape t) idx"

definition build :: "nat list \<Rightarrow> (nat list \<Rightarrow> real) \<Rightarrow> tensor" where
  "build shp f = Tensor shp (map (\<lambda>i. f (unravel shp i)) [0..<prod_list shp])"

definition fill :: "nat list \<Rightarrow> (nat \<Rightarrow> real) \<Rightarrow> tensor" where
  "fill shp g = Tensor shp (map g [0..<prod_list shp])"

definition zeros :: "nat list \<Rightarrow> tensor" where
  "zeros shp = Tensor shp (replicate (prod_list shp) 0)"

definition smul :: "tensor \<Rightarrow> real \<Rightarrow> tensor" where
  "smul t c = Tensor (shape t) (map (\<lambda>v. v * c) (vals t))"

text \<open>\<^verbatim>\<open>tensor.T\<close> of a matrix.\<close>

definition transpose2 :: "tensor \<Rightarrow> tensor" where
  "transpose2 t = build [shape t ! 1, shape t ! 0] (\<lambda>idx. entry t [idx ! 1, idx ! 0])"

subsection \<open>Broadcasting\<close>

text \<open>
  torch aligns two shapes from the right; two sizes are compatible when they are equal or
  one of them is 1, and the size 1 is stretched to the other.
\<close>

definition bdim :: "nat \<Rightarrow> nat \<Rightarrow> nat" where
  "bdim a b = (if a = 1 then b else a)"

definition compatible :: "nat \<Rightarrow> nat \<Rightarrow> bool" where
  "compatible a b = (a = b \<or> a = 1 \<or> b = 1)"

definition pad_shape :: "nat \<Rightarrow> nat list \<Rightarrow> nat list" where
  "pad_shape n shp = replicate (n - length shp) 1 @ shp"

definition bshape :: "nat list \<Rightarrow> nat list \<Rightarrow> nat list" where
  "bshape s1 s2 =
     (let n = max (length s1) (length s2) in map2 bdim (pad_shape n s1) (pad_shape n s2))"

definition broadcastable :: "nat list \<Rightarrow> nat list \<Rightarrow> bool" where
  "broadcastable s1 s2 =
     (let n = max (length s1) (length s2)
      in list_all2 compatible (pad_shape n s1) (pad_shape n s2))"

definition bindex :: "nat list \<Rightarrow> nat list \<Rightarrow> nat list" where
  "bindex shp idx =
     map2 (\<lambda>d i. if d = 1 then 0 else i) shp (drop (length idx - length shp) idx)"

definition tensor_binop :: "(real \<Rightarrow> real \<Rightarrow> real) \<Rightarrow> tensor \<Rightarrow> tensor \<Rightarrow> error + tensor" where
  "tensor_binop f a b =
     (if broadcastable (shape a) (shape b)
      then Inr (build (bshape (shape a) (shape b))
                  (\<lambda>idx. f (entry a (bindex (shape a) idx)) (entry b (bindex (shape b) idx))))
      else Inl (RuntimeError ''The size of tensor a must match the size of tensor b''))"

definition tensor_add :: "tensor \<Rightarrow> tensor \<Rightarrow> error + tensor" where
  "tensor_add = tensor_binop (\<lambda>u v. u + v)"

definition tensor_sub :: "tensor \<Rightarrow> tensor \<Rightarrow> error + tensor" where
  "tensor_sub = tensor_binop (\<lambda>u v. u - v)"

section \<open>The adapter layer\<close>

text \<open>
  \<^verbatim>\<open>torch.nn.Parameter\<close>: a tensor and its \<^verbatim>\<open>requires_grad\<close> flag.
\<close>

record param =
  data :: tensor
  requires_grad :: bool

text \<open>
  \<^verbatim>\<open>self.lora_dropout\<close> is either \<^verbatim>\<open>nn.Dropout(p)\<close> or the identity
  \<^verbatim>\<open>lambda x: x\<close>.
\<close>

datatype dropout = IdentityFn | Dropout real

text \<open>
  The attributes of \<^verbatim>\<open>class Linear(nn.Linear, LoraLayer)\<close>. The sub-layers
  \<^verbatim>\<open>lora_A\<close>, \<^verbatim>\<open>lora_R\<close>, \<^verbatim>\<open>lora_B\<close> are \<^verbatim>\<open>nn.Linear(..., bias=False)\<close>:
  each is its weight parameter, and \<open>None\<close> when the attribute was never assigned (reading it
  raises \<^verbatim>\<open>AttributeError\<close>). The same holds for \<^verbatim>\<open>scaling\<close>. The field
  \<open>lora_rank\<close> is \<^verbatim>\<open>self.r\<close>.
\<close>

record Linear =
  in_features :: nat
  out_features :: nat
  weight :: param
  bias :: "param option"
  training :: bool
  lora_rank :: int
  lora_alpha :: "real option"
  lora_dropout :: dropout
  merged :: bool
  merge_weights :: bool
  disable_adapters :: bool
  fan_in_fan_out :: bool
  lora_router :: bool
  lora_router_mixer :: bool
  lora_A :: "param option"
  lora_R :: "param option"
  lora_B :: "param option"
  scaling :: "real option"

text \<open>
  The random initialisers (\<^verbatim>\<open>kaiming_uniform_\<close>, the bias initialiser of
  \<^verbatim>\<open>nn.Linear.reset_parameters\<close>) draw their values from a source given by the caller:
  entry \<open>i\<close> of the initialised tensor is the source at \<open>i\<close>.
\<close>

record init_source =
  weight_init :: "nat \<Rightarrow> real"
  bias_init :: "nat \<Rightarrow> real"
  lora_A_init :: "nat \<Rightarrow> real"
  lora_R_init :: "nat \<Rightarrow> real"

text \<open>
  \<^verbatim>\<open>LoraLayer.__init__\<close>: the comparison \<^verbatim>\<open>lora_dropout > 0.0\<close> raises
  \<^verbatim>\<open>TypeError\<close> on \<^verbatim>\<open>None\<close>; \<^verbatim>\<open>nn.Dropout(p)\<close> raises \<^verbatim>\<open>ValueError\<close> unless
  \<open>0 \<le> p \<le> 1\<close>.
\<close>

definition LoraLayer_init :: "real option \<Rightarrow> error + dropout" where
  "LoraLayer_init lora_dropout_arg =
     (case lora_dropout_arg of
        None \<Rightarrow> Inl (TypeError ''> not supported between NoneType and float'')
      | Some p \<Rightarrow>
          if p > 0
          then (if p > 1
                then Inl (ValueError ''dropout probability has to be between 0 and 1'')
                else Inr (Dropout p))
          else Inr IdentityFn)"

text \<open>
  \<^verbatim>\<open>Linear.__init__\<close>, with \<^verbatim>\<open>lora_head = 4\<close>. The arguments follow the source's
  signature; \<open>use_bias\<close> is the keyword \<^verbatim>\<open>bias\<close> passed on to \<^verbatim>\<open>nn.Linear.__init__\<close>.
  \<^verbatim>\<open>lora_alpha\<close> and \<^verbatim>\<open>lora_dropout\<close> are optional because \<^verbatim>\<open>LoraConfig\<close> leaves
  them \<^verbatim>\<open>None\<close> by default and \<^verbatim>\<open>_find_and_replace\<close> passes them on unchanged.
  The last call of \<^verbatim>\<open>reset_parameters\<close> draws the weight, the bias, \<^verbatim>\<open>lora_A\<close> and
  \<^verbatim>\<open>lora_R\<close> and sets \<^verbatim>\<open>lora_B\<close> to zero.
\<close>

definition Linear_init ::
  "init_source \<Rightarrow> nat \<Rightarrow> nat \<Rightarrow> bool \<Rightarrow> int \<Rightarrow> real option \<Rightarrow> real option \<Rightarrow>
   bool \<Rightarrow> bool \<Rightarrow> bool \<Rightarrow> bool \<Rightarrow> error + Linear" where
  "Linear_init src in_f out_f use_bias r alpha dropout_p fifo mw router mixer =
     (case LoraLayer_init dropout_p of
        Inl e \<Rightarrow> Inl e
      | Inr dp \<Rightarrow>
          if 0 < r \<and> alpha = None
          then Inl (TypeError ''unsupported operand type(s) for /: NoneType and int'')
          else Inr
            \<lparr> in_features = in_f,
              out_features = out_f,
              weight =
                \<lparr> data = (if fifo then transpose2 (fill [out_f, in_f] (weight_init src))
                          else fill [out_f, in_f] (weight_init src)),
                  requires_grad = (r \<le> 0) \<rparr>,
              bias =
                (if use_bias
                 then Some \<lparr> data = fill [out_f] (bias_init src), requires_grad = True \<rparr>
                 else None),
              training = True,
              lora_rank = r,
              lora_alpha = alpha,
              lora_dropout = dp,
              merged = False,
              merge_weights = mw,
              disable_adapters = False,
              fan_in_fan_out = fifo,
              lora_router = router,
              lora_router_mixer = mixer,
              lora_A =
                (if 0 < r
                 then Some \<lparr> data = fill [nat r, in_f div 4] (lora_A_init src),
                             requires_grad = True \<rparr>
                 else None),
              lora_R =
                (if 0 < r \<and> router
                 then Some \<lparr> data = fill [if mixer then nat (r ^ 2) else nat r, in_f div 4]
                                      (lora_R_init src),
                             requires_grad = True \<rparr>
                 else None),
              lora_B =
                (if 0 < r
                 then Some \<lparr> data = zeros [out_f div 4, nat r], requires_grad = True \<rparr>
                 else None),
              scaling = (if 0 < r then map_option (\<lambda>a. a / real_of_int r) alpha else None) \<rparr>)"

section \<open>Tensor operations used by the forward pass\<close>

text \<open>
  \<^verbatim>\<open>nn.Dropout(p)\<close>: the identity in eval mode; in training mode every entry is either
  zeroed or divided by \<open>1 - p\<close>. The random draw is the argument \<open>keep\<close>: entry \<open>i\<close> (in
  row-major order) survives when \<open>keep i\<close> holds. With \<open>p = 1\<close> every entry is zeroed.
\<close>

definition apply_dropout :: "dropout \<Rightarrow> bool \<Rightarrow> (nat \<Rightarrow> bool) \<Rightarrow> tensor \<Rightarrow> tensor" where
  "apply_dropout d train_mode keep x =
     (case d of
        IdentityFn \<Rightarrow> x
      | Dropout p \<Rightarrow>
          if train_mode
          then Tensor (shape x)
                 (map (\<lambda>i. if keep i \<and> p < 1 then vals x ! i / (1 - p) else 0)
                    [0..<length (vals x)])
          else x)"

text \<open>
  The four \<^verbatim>\<open>einops.rearrange\<close> patterns of the source, for a head count \<open>h\<close>. einops
  raises when the rank of the input is not the rank of the pattern, or when the split axis is
  not divisible by \<open>h\<close>.
\<close>

definition lora_head :: nat where
  "lora_head = 4"

text \<open>\<^verbatim>\<open>'b s (h d) -> (b h) s d'\<close>\<close>

definition rearrange_b_s_hd :: "nat \<Rightarrow> tensor \<Rightarrow> error + tensor" where
  "rearrange_b_s_hd h t =
     (case shape t of
        [b, s, f] \<Rightarrow>
          if f mod h = 0
          then Inr (build [b * h, s, f div h]
                      (\<lambda>idx. entry t [idx ! 0 div h, idx ! 1, (idx ! 0 mod h) * (f div h) + idx ! 2]))
          else Inl (EinopsError ''Shape mismatch, cannot divide axis by h'')
      | _ \<Rightarrow> Inl (EinopsError ''Wrong shape: expected 3 dims''))"

text \<open>\<^verbatim>\<open>'b (h d) -> (b h) d'\<close>\<close>

definition rearrange_b_hd :: "nat \<Rightarrow> tensor \<Rightarrow> error + tensor" where
  "rearrange_b_hd h t =
     (case shape t of
        [b, f] \<Rightarrow>
          if f mod h = 0
          then Inr (build [b * h, f div h]
                      (\<lambda>idx. entry t [idx ! 0 div h, (idx ! 0 mod h) * (f div h) + idx ! 1]))
          else Inl (EinopsError ''Shape mismatch, cannot divide axis by h'')
      | _ \<Rightarrow> Inl (EinopsError ''Wrong shape: expected 2 dims''))"

text \<open>\<^verbatim>\<open>'(b h) s d -> b s (h d)'\<close>\<close>

definition rearrange_bh_s_d :: "nat \<Rightarrow> tensor \<Rightarrow> error + tensor" where
  "rearrange_bh_s_d h t =
     (case shape t of
        [bh, s, d] \<Rightarrow>
          if bh mod h = 0
          then Inr (build [bh div h, s, h * d]
                      (\<lambda>idx. entry t [idx ! 0 * h + idx ! 2 div d, idx ! 1, idx ! 2 mod d]))
          else Inl (EinopsError ''Shape mismatch, cannot divide axis by h'')
      | _ \<Rightarrow> Inl (EinopsError ''Wrong shape: expected 3 dims''))"

text \<open>\<^verbatim>\<open>'(b h) d -> b (h d)'\<close>\<close>

definition rearrange_bh_d :: "nat \<Rightarrow> tensor \<Rightarrow> error + tensor" where
  "rearrange_bh_d h t =
     (case shape t of
        [bh, d] \<Rightarrow>
          if bh mod h = 0
          then Inr (build [bh div h, h * d]
                      (\<lambda>idx. entry t [idx ! 0 * h + idx ! 1 div d, idx ! 1 mod d]))
          else Inl (EinopsError ''Shape mismatch, cannot divide axis by h'')
      | _ \<Rightarrow> Inl (EinopsError ''Wrong shape: expected 2 dims''))"

text \<open>
  \<^verbatim>\<open>F.linear(x, w, bias)\<close>: \<open>x\<close> of shape \<open>(..., in)\<close>, \<open>w\<close> of shape \<open>(out, in)\<close>, an
  optional bias of shape \<open>(out)\<close>; the result has shape \<open>(..., out)\<close>. A call of an
  \<^verbatim>\<open>nn.Linear(..., bias=False)\<close> sub-layer is \<open>F_linear x w None\<close>.
\<close>

definition F_linear :: "tensor \<Rightarrow> tensor \<Rightarrow> tensor option \<Rightarrow> error + tensor" where
  "F_linear x w b =
     (if length (shape w) = 2 \<and> shape x \<noteq> [] \<and> last (shape x) = shape w ! 1
         \<and> (case b of None \<Rightarrow> True | Some bt \<Rightarrow> shape bt = [shape w ! 0])
      then Inr (build (butlast (shape x) @ [shape w ! 0])
                  (\<lambda>idx. (\<Sum>k\<leftarrow>[0..<shape w ! 1]. entry x (butlast idx @ [k]) * entry w [last idx, k])
                         + (case b of None \<Rightarrow> 0 | Some bt \<Rightarrow> entry bt [last idx])))
      else Inl (RuntimeError ''mat1 and mat2 shapes cannot be multiplied''))"

text \<open>\<^verbatim>\<open>torch.softmax(t, dim=-1)\<close>\<close>

definition softmax :: "tensor \<Rightarrow> tensor" where
  "softmax t =
     (if shape t = [] then build [] (\<lambda>idx. 1)
      else build (shape t)
             (\<lambda>idx. exp (entry t idx)
                    / (\<Sum>k\<leftarrow>[0..<last (shape t)]. exp (entry t (butlast idx @ [k])))))"

text \<open>\<^verbatim>\<open>torch.diag_embed(t)\<close>: the last axis becomes the diagonal of a square matrix.\<close>

definition diag_embed :: "tensor \<Rightarrow> error + tensor" where
  "diag_embed t =
     (if shape t = [] then Inl (RuntimeError ''Dimension out of range'')
      else Inr (build (shape t @ [last (shape t)])
                  (\<lambda>idx. if last idx = last (butlast idx) then entry t (butlast idx) else 0)))"

text \<open>\<^verbatim>\<open>t.reshape(shp)\<close> for explicit (non-negative) sizes.\<close>

definition reshape :: "tensor \<Rightarrow> nat list \<Rightarrow> error + tensor" where
  "reshape t shp =
     (if prod_list shp = prod_list (shape t) then Inr (Tensor shp (vals t))
      else Inl (RuntimeError ''shape is invalid for input size''))"

text \<open>
  \<^verbatim>\<open>torch.einsum('bnr, bnrk->bnk', left, gate)\<close>. The sizes of a shared subscript must be
  equal or 1 (a size 1 is broadcast).
\<close>

definition einsum_bnr_bnrk :: "tensor \<Rightarrow> tensor \<Rightarrow> error + tensor" where
  "einsum_bnr_bnrk left gate =
     (case (shape left, shape gate) of
        ([b1, n1, r1], [b2, n2, r2, k]) \<Rightarrow>
          if compatible b1 b2 \<and> compatible n1 n2 \<and> compatible r1 r2
          then Inr (build [bdim b1 b2, bdim n1 n2, k]
                      (\<lambda>idx. \<Sum>r\<leftarrow>[0..<bdim r1 r2].
                          entry left (bindex [b1, n1, r1] [idx ! 0, idx ! 1, r])
                          * entry gate (bindex [b2, n2, r2, k] [idx ! 0, idx ! 1, r, idx ! 2])))
          else Inl (RuntimeError ''einsum(): operands do not broadcast'')
      | _ \<Rightarrow> Inl (RuntimeError ''einsum(): subscripts do not match the operands''))"

text \<open>
  Modelled from the spec: \<^verbatim>\<open>transpose\<close> is imported from \<^verbatim>\<open>peft/utils\<close>, which is not
  among the sources. The spec says the frozen weight is applied ``transposed per the
  fan-in/fan-out flag''.
\<close>

definition transpose_weight :: "tensor \<Rightarrow> bool \<Rightarrow> tensor" where
  "transpose_weight w fifo = (if fifo then transpose2 w else w)"

section \<open>The forward pass\<close>

text \<open>
  \<^verbatim>\<open>Linear.forward\<close>. The steps and their order are the source's; an attribute that was
  never assigned raises \<^verbatim>\<open>AttributeError\<close> where the source reads it. For a router output
  of rank 3 the source calls \<^verbatim>\<open>torch.enisum\<close>, which is not an attribute of \<^verbatim>\<open>torch\<close>.
\<close>

definition forward :: "Linear \<Rightarrow> (nat \<Rightarrow> bool) \<Rightarrow> tensor \<Rightarrow> error + tensor" where
  "forward self keep x =
     (if disable_adapters self
      then Inl (NotImplementedError ''Disabling adapters is not supported for LoraLayer yet'')
      else
        case lora_A self of
          None \<Rightarrow> Inl (AttributeError ''lora_A'')
        | Some A \<Rightarrow>
        bind_err
          (if length (shape x) = 3
           then rearrange_b_s_hd lora_head (apply_dropout (lora_dropout self) (training self) keep x)
           else rearrange_b_hd lora_head (apply_dropout (lora_dropout self) (training self) keep x))
          (\<lambda>dropout_x.
        bind_err (F_linear dropout_x (data A) None) (\<lambda>left_result.
        case lora_R self of
          None \<Rightarrow> Inl (AttributeError ''lora_R'')
        | Some R \<Rightarrow>
        bind_err (F_linear dropout_x (data R) None) (\<lambda>router_out.
        bind_err
          (if lora_router self
           then (if \<not> lora_router_mixer self
                 then diag_embed (softmax router_out)
                 else if lora_rank self < 0
                 then Inl (RuntimeError ''invalid shape dimension'')
                 else reshape (softmax router_out)
                        (butlast (shape router_out) @ [nat (lora_rank self), nat (lora_rank self)]))
           else Inr router_out)
          (\<lambda>router_weight.
        bind_err
          (if length (shape router_weight) = 3
           then Inl (AttributeError ''enisum'')
           else einsum_bnr_bnrk left_result router_weight)
          (\<lambda>moe_result.
        case lora_B self of
          None \<Rightarrow> Inl (AttributeError ''lora_B'')
        | Some B \<Rightarrow>
        bind_err (F_linear moe_result (data B) None) (\<lambda>b_out.
        case scaling self of
          None \<Rightarrow> Inl (AttributeError ''scaling'')
        | Some sc \<Rightarrow>
        bind_err
          (if length (shape x) = 3
           then rearrange_bh_s_d lora_head (smul b_out sc)
           else rearrange_bh_d lora_head (smul b_out sc))
          (\<lambda>lora_result.
        bind_err
          (F_linear x (transpose_weight (data (weight self)) (fan_in_fan_out self))
             (map_option data (bias self)))
          (\<lambda>org_result. tensor_add lora_result org_result)))))))))"

text \<open>
  The frozen base path on its own: line 427 of the source,
  \<^verbatim>\<open>F.linear(x, transpose(self.weight, self.fan_in_fan_out), bias=self.bias)\<close>.
\<close>

definition base_path :: "Linear \<Rightarrow> tensor \<Rightarrow> error + tensor" where
  "base_path self x =
     F_linear x (transpose_weight (data (weight self)) (fan_in_fan_out self))
       (map_option data (bias self))"

section \<open>Train and eval mode\<close>

text \<open>
  \<^verbatim>\<open>Linear.train\<close>: \<^verbatim>\<open>nn.Linear.train\<close> sets the training flag of the layer and of its
  sub-modules; then the source reads \<^verbatim>\<open>lora_A\<close>, \<^verbatim>\<open>lora_R\<close> (when the router flag is
  set) and \<^verbatim>\<open>lora_B\<close>, and sets \<^verbatim>\<open>merged\<close> to false. No weight is touched.
  Where an attribute is missing the source raises with the training flag already set; the
  model returns the error alone.
\<close>

definition Linear_train :: "Linear \<Rightarrow> bool \<Rightarrow> error + Linear" where
  "Linear_train self mode =
     (case lora_A self of
        None \<Rightarrow> Inl (AttributeError ''lora_A'')
      | Some A \<Rightarrow>
          if lora_router self \<and> lora_R self = None then Inl (AttributeError ''lora_R'')
          else case lora_B self of
                 None \<Rightarrow> Inl (AttributeError ''lora_B'')
               | Some B \<Rightarrow> Inr (self\<lparr>training := mode, merged := False\<rparr>))"

text \<open>
  \<^verbatim>\<open>Linear.eval\<close>: \<^verbatim>\<open>nn.Linear.eval(self)\<close> is \<^verbatim>\<open>nn.Module.eval\<close>, which calls
  \<^verbatim>\<open>self.train(False)\<close>, that is \<^verbatim>\<open>Linear.train\<close> above; the calls of \<^verbatim>\<open>eval\<close> on the
  sub-layers that follow change nothing more.
\<close>

definition Linear_eval :: "Linear \<Rightarrow> error + Linear" where
  "Linear_eval self =
     bind_err (Linear_train self False) (\<lambda>self'.
       case lora_A self' of
         None \<Rightarrow> Inl (AttributeError ''lora_A'')
       | Some A \<Rightarrow>
           if lora_router self' \<and> lora_R self' = None then Inl (AttributeError ''lora_R'')
           else case lora_B self' of
                  None \<Rightarrow> Inl (AttributeError ''lora_B'')
                | Some B \<Rightarrow> Inr self')"

section \<open>Facts about tensors\<close>

lemma shape_build [simp]: "shape (build shp f) = shp" by (simp add: build_def)
lemma shape_fill [simp]: "shape (fill shp f) = shp" by (simp add: fill_def)
lemma shape_zeros [simp]: "shape (zeros shp) = shp" by (simp add: zeros_def)
lemma shape_smul [simp]: "shape (smul t c) = shape t" by (simp add: smul_def)
lemma length_vals_build [simp]: "length (vals (build shp f)) = prod_list shp" by (simp add: build_def)
lemma length_vals_smul [simp]: "length (vals (smul t c)) = length (vals t)" by (simp add: smul_def)

lemma valid_index_length: "valid_index shp idx \<Longrightarrow> length idx = length shp"
  by (simp add: valid_index_def list_all2_lengthD)

lemma valid_index_Nil [simp]: "valid_index [] idx = (idx = [])"
  by (simp add: valid_index_def)

lemma valid_index_Cons:
  "valid_index (n # ns) idx = (\<exists>i js. idx = i # js \<and> i < n \<and> valid_index ns js)"
  by (cases idx) (auto simp: valid_index_def)

lemma ravel_bound: "valid_index shp idx \<Longrightarrow> ravel shp idx < prod_list shp"
proof (induction shp arbitrary: idx)
  case Nil
  then show ?case by simp
next
  case (Cons n ns)
  then obtain i js where idx: "idx = i # js" and i: "i < n" and js: "valid_index ns js"
    by (auto simp: valid_index_Cons)
  have "ravel ns js < prod_list ns" using Cons.IH js by simp
  then have "i * prod_list ns + ravel ns js < (i + 1) * prod_list ns" by simp
  also have "\<dots> \<le> n * prod_list ns" using i by (intro mult_le_mono1) simp
  finally show ?case by (simp add: idx)
qed

lemma unravel_valid: "i < prod_list shp \<Longrightarrow> valid_index shp (unravel shp i)"
proof (induction shp arbitrary: i)
  case Nil
  then show ?case by simp
next
  case (Cons n ns)
  have pos: "0 < prod_list ns" using Cons.prems by (cases "prod_list ns = 0") auto
  have "i div prod_list ns < n"
    using Cons.prems pos by (simp add: less_mult_imp_div_less mult.commute)
  moreover have "valid_index ns (unravel ns (i mod prod_list ns))"
    using Cons.IH pos by simp
  ultimately show ?case by (simp add: valid_index_Cons)
qed

lemma unravel_ravel: "valid_index shp idx \<Longrightarrow> unravel shp (ravel shp idx) = idx"
proof (induction shp arbitrary: idx)
  case Nil
  then show ?case by simp
next
  case (Cons n ns)
  then obtain i js where idx: "idx = i # js" and i: "i < n" and js: "valid_index ns js"
    by (auto simp: valid_index_Cons)
  have b: "ravel ns js < prod_list ns" using js by (rule ravel_bound)
  show ?case using Cons.IH [OF js] b by (simp add: idx)
qed

lemma entry_build: "valid_index shp idx \<Longrightarrow> entry (build shp f) idx = f idx"
  using ravel_bound [of shp idx] unravel_ravel [of shp idx]
  by (simp add: entry_def build_def)

lemma entry_smul:
  "ravel (shape t) idx < length (vals t) \<Longrightarrow> entry (smul t c) idx = entry t idx * c"
  by (simp add: entry_def smul_def)

lemma build_cong:
  "(\<And>idx. valid_index shp idx \<Longrightarrow> f idx = g idx) \<Longrightarrow> build shp f = build shp g"
  by (simp add: build_def unravel_valid)

lemma smul_build: "smul (build shp f) c = build shp (\<lambda>idx. f idx * c)"
  by (simp add: smul_def build_def)


text \<open>
  A tensor is well formed when it has as many entries as its shape says. Every tensor the
  operations above return is well formed.
\<close>

definition wf_tensor :: "tensor \<Rightarrow> bool" where
  "wf_tensor t = (length (vals t) = prod_list (shape t))"

lemma wf_build [simp]: "wf_tensor (build shp f)" by (simp add: wf_tensor_def)
lemma wf_smul [simp]: "wf_tensor (smul t c) = wf_tensor t" by (simp add: wf_tensor_def)

lemma entry_smul_valid:
  "wf_tensor t \<Longrightarrow> valid_index (shape t) idx \<Longrightarrow> entry (smul t c) idx = entry t idx * c"
  using ravel_bound [of "shape t" idx] by (simp add: entry_smul wf_tensor_def)

lemma valid_index3:
  "valid_index [a, b, c] idx = (\<exists>i j k. idx = [i, j, k] \<and> i < a \<and> j < b \<and> k < c)"
  by (auto simp: valid_index_Cons)

lemma valid_index2:
  "valid_index [a, b] idx = (\<exists>i j. idx = [i, j] \<and> i < a \<and> j < b)"
  by (auto simp: valid_index_Cons)

lemma merge_index_bound:
  fixes h :: nat
  assumes "i < bh div h" "k < h * d"
  shows "i * h + k div d < bh" "k mod d < d"
proof -
  have d: "0 < d" using assms(2) by (cases d) auto
  show "k mod d < d" using d by simp
  have "k div d < h" using assms(2) d by (simp add: less_mult_imp_div_less mult.commute)
  then have "i * h + k div d < (i + 1) * h" by simp
  also have "\<dots> \<le> (bh div h) * h" using assms(1) by (intro mult_le_mono1) simp
  also have "\<dots> \<le> bh" by simp
  finally show "i * h + k div d < bh" .
qed

lemma rearrange_bh_s_d_smul:
  assumes "wf_tensor t"
  shows "rearrange_bh_s_d h (smul t c) = map_sum id (\<lambda>u. smul u c) (rearrange_bh_s_d h t)"
proof (cases "\<exists>bh s d. shape t = [bh, s, d] \<and> bh mod h = 0")
  case True
  then obtain bh s d where sh: "shape t = [bh, s, d]" and dv: "bh mod h = 0" by auto
  have "build [bh div h, s, h * d]
          (\<lambda>idx. entry (smul t c) [idx ! 0 * h + idx ! 2 div d, idx ! 1, idx ! 2 mod d])
      = build [bh div h, s, h * d]
          (\<lambda>idx. entry t [idx ! 0 * h + idx ! 2 div d, idx ! 1, idx ! 2 mod d] * c)"
  proof (rule build_cong)
    fix idx assume "valid_index [bh div h, s, h * d] idx"
    then obtain i j k where idx: "idx = [i, j, k]" and b: "i < bh div h" "j < s" "k < h * d"
      by (auto simp: valid_index3)
    have "valid_index (shape t) [i * h + k div d, j, k mod d]"
      using merge_index_bound [OF b(1) b(3)] b(2) by (simp add: sh valid_index3)
    then show "entry (smul t c) [idx ! 0 * h + idx ! 2 div d, idx ! 1, idx ! 2 mod d]
             = entry t [idx ! 0 * h + idx ! 2 div d, idx ! 1, idx ! 2 mod d] * c"
      using assms by (simp add: idx entry_smul_valid)
  qed
  then show ?thesis by (simp add: rearrange_bh_s_d_def sh dv smul_build)
next
  case False
  then show ?thesis
    by (auto simp: rearrange_bh_s_d_def split: list.splits)
qed

lemma rearrange_bh_d_smul:
  assumes "wf_tensor t"
  shows "rearrange_bh_d h (smul t c) = map_sum id (\<lambda>u. smul u c) (rearrange_bh_d h t)"
proof (cases "\<exists>bh d. shape t = [bh, d] \<and> bh mod h = 0")
  case True
  then obtain bh d where sh: "shape t = [bh, d]" and dv: "bh mod h = 0" by auto
  have "build [bh div h, h * d]
          (\<lambda>idx. entry (smul t c) [idx ! 0 * h + idx ! 1 div d, idx ! 1 mod d])
      = build [bh div h, h * d]
          (\<lambda>idx. entry t [idx ! 0 * h + idx ! 1 div d, idx ! 1 mod d] * c)"
  proof (rule build_cong)
    fix idx assume "valid_index [bh div h, h * d] idx"
    then obtain i k where idx: "idx = [i, k]" and b: "i < bh div h" "k < h * d"
      by (auto simp: valid_index2)
    have "valid_index (shape t) [i * h + k div d, k mod d]"
      using merge_index_bound [OF b(1) b(2)] by (simp add: sh valid_index2)
    then show "entry (smul t c) [idx ! 0 * h + idx ! 1 div d, idx ! 1 mod d]
             = entry t [idx ! 0 * h + idx ! 1 div d, idx ! 1 mod d] * c"
      using assms by (simp add: idx entry_smul_valid)
  qed
  then show ?thesis by (simp add: rearrange_bh_d_def sh dv smul_build)
next
  case False
  then show ?thesis
    by (auto simp: rearrange_bh_d_def split: list.splits)
qed


subsection \<open>Broadcasting\<close>

lemma length_pad_shape: "length shp \<le> n \<Longrightarrow> length (pad_shape n shp) = n"
  by (simp add: pad_shape_def)

lemma length_bshape [simp]: "length (bshape s1 s2) = max (length s1) (length s2)"
  by (simp add: bshape_def Let_def length_pad_shape)

lemma pad_shape_same: "length shp = n \<Longrightarrow> pad_shape n shp = shp"
  by (simp add: pad_shape_def)

lemma bdim_idem: "bdim (bdim a b) b = bdim a b"
  by (simp add: bdim_def)

lemma compatible_bdim: "compatible a b \<Longrightarrow> compatible (bdim a b) b"
  by (auto simp: bdim_def compatible_def)

lemma bshape_left_full:
  "length s2 \<le> length S \<Longrightarrow> bshape S s2 = map2 bdim S (pad_shape (length S) s2)"
  by (simp add: bshape_def Let_def max_absorb1 pad_shape_same)

lemma broadcastable_left_full:
  "length s2 \<le> length S \<Longrightarrow>
     broadcastable S s2 = list_all2 compatible S (pad_shape (length S) s2)"
  by (simp add: broadcastable_def Let_def max_absorb1 pad_shape_same)

lemma bshape_idem: "bshape (bshape s1 s2) s2 = bshape s1 s2"
proof -
  define n where "n = max (length s1) (length s2)"
  have l1: "length (pad_shape n s1) = n" and l2: "length (pad_shape n s2) = n"
    by (simp_all add: n_def length_pad_shape)
  have S: "bshape s1 s2 = map2 bdim (pad_shape n s1) (pad_shape n s2)"
    by (simp add: bshape_def n_def Let_def)
  have lS: "length (bshape s1 s2) = n" by (simp add: n_def)
  have "bshape (bshape s1 s2) s2 = map2 bdim (bshape s1 s2) (pad_shape n s2)"
    using bshape_left_full [of s2 "bshape s1 s2"] by (simp add: lS) (simp add: n_def)
  also have "\<dots> = map2 bdim (pad_shape n s1) (pad_shape n s2)"
    unfolding S using l1 l2 by (intro nth_equalityI) (simp_all add: bdim_idem)
  finally show ?thesis by (simp add: S)
qed

lemma broadcastable_bshape:
  assumes "broadcastable s1 s2"
  shows "broadcastable (bshape s1 s2) s2"
proof -
  define n where "n = max (length s1) (length s2)"
  have l1: "length (pad_shape n s1) = n" and l2: "length (pad_shape n s2) = n"
    by (simp_all add: n_def length_pad_shape)
  have S: "bshape s1 s2 = map2 bdim (pad_shape n s1) (pad_shape n s2)"
    by (simp add: bshape_def n_def Let_def)
  have lS: "length (bshape s1 s2) = n" by (simp add: n_def)
  have c: "list_all2 compatible (pad_shape n s1) (pad_shape n s2)"
    using assms by (simp add: broadcastable_def n_def Let_def)
  have "list_all2 compatible (map2 bdim (pad_shape n s1) (pad_shape n s2)) (pad_shape n s2)"
    using c l1 l2 by (auto simp: list_all2_conv_all_nth compatible_bdim)
  then have "list_all2 compatible (bshape s1 s2) (pad_shape n s2)"
    by (simp only: S)
  then have "list_all2 compatible (bshape s1 s2) (pad_shape (length (bshape s1 s2)) s2)"
    by (simp only: lS)
  then show ?thesis
    using broadcastable_left_full [of s2 "bshape s1 s2"] by simp
qed

lemma bindex_valid_id: "valid_index shp idx \<Longrightarrow> bindex shp idx = idx"
proof -
  assume v: "valid_index shp idx"
  then have len: "length idx = length shp" by (rule valid_index_length)
  have "map2 (\<lambda>d i. if d = 1 then 0 else i) shp idx = idx"
    using v len by (intro nth_equalityI) (auto simp: valid_index_def list_all2_conv_all_nth)
  then show ?thesis by (simp add: bindex_def len)
qed

lemma bindex_valid_left:
  assumes "valid_index (bshape s1 s2) idx"
  shows "valid_index s1 (bindex s1 idx)"
proof -
  define n where "n = max (length s1) (length s2)"
  define m where "m = n - length s1"
  have l1: "length (pad_shape n s1) = n" and l2: "length (pad_shape n s2) = n"
    by (simp_all add: n_def length_pad_shape)
  have S: "bshape s1 s2 = map2 bdim (pad_shape n s1) (pad_shape n s2)"
    by (simp add: bshape_def n_def Let_def)
  have len: "length idx = n" using valid_index_length [OF assms] by (simp add: n_def)
  have mn: "m + length s1 = n" by (simp add: m_def n_def)
  have bound: "idx ! k < bdim (pad_shape n s1 ! k) (pad_shape n s2 ! k)" if "k < n" for k
    using assms that l1 l2 len by (auto simp: S valid_index_def list_all2_conv_all_nth)
  have pad: "pad_shape n s1 ! (m + j) = s1 ! j" if "j < length s1" for j
    by (simp add: pad_shape_def m_def nth_append)
  have "(if s1 ! j = 1 then 0 else idx ! (m + j)) < s1 ! j" if j: "j < length s1" for j
  proof (cases "s1 ! j = 1")
    case True
    then show ?thesis by simp
  next
    case False
    have "m + j < n" using j mn by simp
    from bound [OF this] show ?thesis using False by (simp add: pad [OF j] bdim_def)
  qed
  then have "list_all2 (\<lambda>i n. i < n)
       (map2 (\<lambda>d i. if d = 1 then 0 else i) s1 (drop m idx)) s1"
    using len mn by (auto simp: list_all2_conv_all_nth)
  then show ?thesis by (simp add: valid_index_def bindex_def len m_def)
qed

lemma contribution_smul:
  assumes "wf_tensor l"
  shows "bind_err (tensor_add (smul l c) b) (\<lambda>y. tensor_sub y b)
       = map_sum id (\<lambda>d. smul d c) (bind_err (tensor_add l b) (\<lambda>y. tensor_sub y b))"
proof (cases "broadcastable (shape l) (shape b)")
  case False
  then show ?thesis by (simp add: tensor_add_def tensor_binop_def bind_err_def)
next
  case True
  define S where "S = bshape (shape l) (shape b)"
  have bs: "broadcastable S (shape b)" and SS: "bshape S (shape b) = S"
    using True by (simp_all add: S_def broadcastable_bshape bshape_idem)
  define y where "y = build S (\<lambda>idx. entry l (bindex (shape l) idx) + entry b (bindex (shape b) idx))"
  define y' where
    "y' = build S (\<lambda>idx. entry (smul l c) (bindex (shape l) idx) + entry b (bindex (shape b) idx))"
  have a1: "tensor_add l b = Inr y" and a2: "tensor_add (smul l c) b = Inr y'"
    using True by (simp_all add: tensor_add_def tensor_binop_def y_def y'_def S_def)
  have "build S (\<lambda>idx. entry y' (bindex S idx) - entry b (bindex (shape b) idx))
      = build S (\<lambda>idx. (entry y (bindex S idx) - entry b (bindex (shape b) idx)) * c)"
  proof (rule build_cong)
    fix idx assume v: "valid_index S idx"
    have vl: "valid_index (shape l) (bindex (shape l) idx)"
      using v unfolding S_def by (rule bindex_valid_left)
    have e: "entry (smul l c) (bindex (shape l) idx) = entry l (bindex (shape l) idx) * c"
      using assms vl by (rule entry_smul_valid)
    show "entry y' (bindex S idx) - entry b (bindex (shape b) idx)
        = (entry y (bindex S idx) - entry b (bindex (shape b) idx)) * c"
      using v by (simp add: bindex_valid_id y_def y'_def entry_build e)
  qed
  moreover have "shape y = S" "shape y' = S" by (simp_all add: y_def y'_def)
  ultimately show ?thesis
    using bs by (simp add: a1 a2 bind_err_def tensor_sub_def tensor_binop_def SS smul_build)
qed


section \<open>The forward pass in two parts\<close>

lemma bind_err_Inl [simp]: "bind_err (Inl e) f = Inl e"
  by (simp add: bind_err_def)

lemma bind_err_Inr [simp]: "bind_err (Inr v) f = f v"
  by (simp add: bind_err_def)

lemma bind_err_assoc:
  "bind_err (bind_err m f) g = bind_err m (\<lambda>v. bind_err (f v) g)"
  by (cases m) simp_all

lemma bind_err_option_case:
  "bind_err (case opt of None \<Rightarrow> Inl e | Some a \<Rightarrow> f a) g
   = (case opt of None \<Rightarrow> Inl e | Some a \<Rightarrow> bind_err (f a) g)"
  by (cases opt) simp_all

lemma bind_err_InrD: "bind_err m f = Inr t \<Longrightarrow> \<exists>v. m = Inr v \<and> f v = Inr t"
  by (cases m) simp_all

text \<open>
  The forward pass up to and including \<^verbatim>\<open>self.forward_B(moe_result)\<close>, before the result
  is multiplied by \<^verbatim>\<open>self.scaling\<close>. It is the first part of \<open>forward\<close>, word for word
  (lemma \<open>forward_split\<close>), and reads neither \<^verbatim>\<open>scaling\<close> nor \<^verbatim>\<open>lora_alpha\<close>.
\<close>

definition forward_B_out :: "Linear \<Rightarrow> (nat \<Rightarrow> bool) \<Rightarrow> tensor \<Rightarrow> error + tensor" where
  "forward_B_out self keep x =
     (if disable_adapters self
      then Inl (NotImplementedError ''Disabling adapters is not supported for LoraLayer yet'')
      else
        case lora_A self of
          None \<Rightarrow> Inl (AttributeError ''lora_A'')
        | Some A \<Rightarrow>
        bind_err
          (if length (shape x) = 3
           then rearrange_b_s_hd lora_head (apply_dropout (lora_dropout self) (training self) keep x)
           else rearrange_b_hd lora_head (apply_dropout (lora_dropout self) (training self) keep x))
          (\<lambda>dropout_x.
        bind_err (F_linear dropout_x (data A) None) (\<lambda>left_result.
        case lora_R self of
          None \<Rightarrow> Inl (AttributeError ''lora_R'')
        | Some R \<Rightarrow>
        bind_err (F_linear dropout_x (data R) None) (\<lambda>router_out.
        bind_err
          (if lora_router self
           then (if \<not> lora_router_mixer self
                 then diag_embed (softmax router_out)
                 else if lora_rank self < 0
                 then Inl (RuntimeError ''invalid shape dimension'')
                 else reshape (softmax router_out)
                        (butlast (shape router_out) @ [nat (lora_rank self), nat (lora_rank self)]))
           else Inr router_out)
          (\<lambda>router_weight.
        bind_err
          (if length (shape router_weight) = 3
           then Inl (AttributeError ''enisum'')
           else einsum_bnr_bnrk left_result router_weight)
          (\<lambda>moe_result.
        case lora_B self of
          None \<Rightarrow> Inl (AttributeError ''lora_B'')
        | Some B \<Rightarrow> F_linear moe_result (data B) None))))))"

lemma forward_split:
  "forward self keep x =
     bind_err (forward_B_out self keep x) (\<lambda>b_out.
       case scaling self of
         None \<Rightarrow> Inl (AttributeError ''scaling'')
       | Some sc \<Rightarrow>
           bind_err
             (if length (shape x) = 3
              then rearrange_bh_s_d lora_head (smul b_out sc)
              else rearrange_bh_d lora_head (smul b_out sc))
             (\<lambda>lora_result.
                bind_err (base_path self x) (\<lambda>org_result. tensor_add lora_result org_result)))"
proof (cases "disable_adapters self")
  case True
  then show ?thesis by (simp add: forward_def forward_B_out_def)
next
  case False
  then show ?thesis
    by (simp add: forward_def forward_B_out_def base_path_def bind_err_assoc
        bind_err_option_case cong: option.case_cong)
qed

lemma forward_B_out_scaling [simp]:
  "forward_B_out (self\<lparr>scaling := sc\<rparr>) keep x = forward_B_out self keep x"
  by (simp add: forward_B_out_def cong: option.case_cong if_cong)

lemma forward_B_out_lora_alpha [simp]:
  "forward_B_out (self\<lparr>lora_alpha := al\<rparr>) keep x = forward_B_out self keep x"
  by (simp add: forward_B_out_def cong: option.case_cong if_cong)

lemma base_path_scaling [simp]:
  "base_path (self\<lparr>scaling := sc\<rparr>) x = base_path self x"
  by (simp add: base_path_def)

lemma base_path_lora_alpha [simp]:
  "base_path (self\<lparr>lora_alpha := al\<rparr>) x = base_path self x"
  by (simp add: base_path_def)

lemma F_linear_wf: "F_linear x w b = Inr t \<Longrightarrow> wf_tensor t"
  by (auto simp: F_linear_def split: if_splits)

lemma forward_B_out_wf: "forward_B_out self keep x = Inr t \<Longrightarrow> wf_tensor t"
  unfolding forward_B_out_def
  by (auto split: if_splits option.splits dest!: bind_err_InrD) (erule F_linear_wf)+

lemma smul_smul: "smul (smul t a) b = smul t (a * b)"
  by (simp add: smul_def)

lemma rearrange_bh_s_d_wf: "rearrange_bh_s_d h t = Inr u \<Longrightarrow> wf_tensor u"
  by (auto simp: rearrange_bh_s_d_def split: list.splits if_splits)

lemma rearrange_bh_d_wf: "rearrange_bh_d h t = Inr u \<Longrightarrow> wf_tensor u"
  by (auto simp: rearrange_bh_d_def split: list.splits if_splits)

text \<open>
  The low-rank contribution of a forward call: the output of the layer minus the frozen base
  path, \<^verbatim>\<open>layer(x) - F.linear(x, transpose(W, fan_in_fan_out), bias)\<close>.
\<close>

definition low_rank_contribution :: "Linear \<Rightarrow> (nat \<Rightarrow> bool) \<Rightarrow> tensor \<Rightarrow> error + tensor" where
  "low_rank_contribution self keep x =
     bind_err (forward self keep x) (\<lambda>y.
       bind_err (base_path self x) (\<lambda>org_result. tensor_sub y org_result))"

lemma contribution_scaled:
  "low_rank_contribution (self\<lparr>lora_alpha := al, scaling := Some (sc * c)\<rparr>) keep x
   = map_sum id (\<lambda>d. smul d c) (low_rank_contribution (self\<lparr>scaling := Some sc\<rparr>) keep x)"
proof (cases "forward_B_out self keep x")
  case (Inl e)
  then show ?thesis
    by (simp add: low_rank_contribution_def forward_split)
next
  case (Inr b_out)
  have wf: "wf_tensor (smul b_out sc)" using forward_B_out_wf [OF Inr] by simp
  define re where "re = (\<lambda>t. if length (shape x) = 3
              then rearrange_bh_s_d lora_head t else rearrange_bh_d lora_head t)"
  have re_smul: "re (smul b_out (sc * c)) = map_sum id (\<lambda>u. smul u c) (re (smul b_out sc))"
    using rearrange_bh_s_d_smul [OF wf, of lora_head c] rearrange_bh_d_smul [OF wf, of lora_head c]
    by (simp add: re_def smul_smul)
  have f1: "forward (self\<lparr>lora_alpha := al, scaling := Some (sc * c)\<rparr>) keep x
      = bind_err (re (smul b_out (sc * c))) (\<lambda>lora_result.
          bind_err (base_path self x) (\<lambda>org_result. tensor_add lora_result org_result))"
    by (simp add: forward_split Inr re_def)
  have f2: "forward (self\<lparr>scaling := Some sc\<rparr>) keep x
      = bind_err (re (smul b_out sc)) (\<lambda>lora_result.
          bind_err (base_path self x) (\<lambda>org_result. tensor_add lora_result org_result))"
    by (simp add: forward_split Inr re_def)
  show ?thesis
  proof (cases "re (smul b_out sc)")
    case (Inl e)
    then show ?thesis
      by (simp add: low_rank_contribution_def f1 f2 re_smul bind_err_def)
  next
    case lo: (Inr lora_result)
    have wfl: "wf_tensor lora_result"
      using lo rearrange_bh_s_d_wf rearrange_bh_d_wf by (auto simp: re_def split: if_splits)
    show ?thesis
    proof (cases "base_path self x")
      case (Inl e)
      then show ?thesis
        by (simp add: low_rank_contribution_def f1 f2 re_smul lo bind_err_def)
    next
      case (Inr org_result)
      show ?thesis
        using contribution_smul [OF wfl, of c org_result]
        by (simp add: low_rank_contribution_def f1 f2 re_smul lo Inr bind_err_def
            split: sum.splits)
    qed
  qed
qed

text \<open>A source of initial values for the examples: entry \<open>i\<close> is \<open>i + 1\<close>.\<close>

definition example_source :: init_source where
  "example_source =
     \<lparr> weight_init = (\<lambda>i. real i + 1), bias_init = (\<lambda>i. real i + 1),
       lora_A_init = (\<lambda>i. real i + 1), lora_R_init = (\<lambda>i. real i + 1) \<rparr>"

definition example_layer :: Linear where
  "example_layer =
     projr (Linear_init example_source 4 4 True 1 (Some 2) (Some 0) False True True False)"

text \<open>The example layer after a training update that made \<^verbatim>\<open>lora_B\<close> non-zero.\<close>

definition trained_layer :: Linear where
  "trained_layer =
     example_layer\<lparr>lora_B := Some \<lparr>data = fill [1, 1] (\<lambda>i. 3), requires_grad = True\<rparr>\<rparr>"

lemma example_layer_constructed:
  "Linear_init example_source 4 4 True 1 (Some 2) (Some 0) False True True False
     = Inr example_layer"
  by (simp add: example_layer_def Linear_init_def LoraLayer_init_def)

lemma shape_apply_dropout [simp]: "shape (apply_dropout d m keep x) = shape x"
  by (simp add: apply_dropout_def split: dropout.splits)

lemmas forward_eval_simps =
  Linear_init_def LoraLayer_init_def forward_def base_path_def apply_dropout_def
  rearrange_b_hd_def rearrange_b_s_hd_def rearrange_bh_d_def rearrange_bh_s_d_def
  lora_head_def F_linear_def diag_embed_def softmax_def reshape_def einsum_bnr_bnrk_def
  transpose_weight_def transpose2_def tensor_add_def tensor_sub_def tensor_binop_def
  broadcastable_def bshape_def pad_shape_def compatible_def bdim_def

section \<open>What the constructor creates\<close>

text \<open>
  The attributes \<^verbatim>\<open>Linear.__init__\<close> creates under \<^verbatim>\<open>if r > 0\<close>: \<^verbatim>\<open>lora_A\<close>,
  \<^verbatim>\<open>lora_B\<close>, \<^verbatim>\<open>scaling\<close>, and \<^verbatim>\<open>lora_R\<close> exactly when the router flag is set.
\<close>

definition adapter_created :: "Linear \<Rightarrow> bool" where
  "adapter_created self =
     (lora_A self \<noteq> None \<and> lora_B self \<noteq> None \<and> scaling self \<noteq> None
      \<and> lora_router self = (lora_R self \<noteq> None))"

lemma Linear_init_adapter_created:
  "0 < r \<Longrightarrow> Linear_init src in_f out_f use_bias r alpha dropout_p fifo mw router mixer = Inr L
     \<Longrightarrow> adapter_created L \<and> lora_rank L = r \<and> lora_router L = router \<and> merge_weights L = mw"
  by (auto simp: Linear_init_def adapter_created_def split: sum.splits if_splits)

lemma Linear_init_rank_zero:
  "r \<le> 0 \<Longrightarrow> Linear_init src in_f out_f use_bias r alpha dropout_p fifo mw router mixer = Inr L
     \<Longrightarrow> lora_A L = None \<and> \<not> disable_adapters L"
  by (auto simp: Linear_init_def split: sum.splits if_splits)

lemma Linear_init_halved_alpha:
  "0 < r \<Longrightarrow>
   Linear_init src in_f out_f use_bias r (Some a) dropout_p fifo mw router mixer = Inr L \<Longrightarrow>
     lora_alpha L = Some a \<and> scaling L = Some (a / real_of_int r) \<and> lora_rank L = r
     \<and> Linear_init src in_f out_f use_bias r (Some (a / 2)) dropout_p fifo mw router mixer
         = Inr (L\<lparr>lora_alpha := Some (a / 2), scaling := Some ((a / 2) / real_of_int r)\<rparr>)"
  by (auto simp: Linear_init_def split: sum.splits if_splits)

section \<open>Rank zero\<close>

lemma forward_without_lora_A:
  "lora_A self = None \<Longrightarrow> \<not> disable_adapters self \<Longrightarrow>
     forward self keep x = Inl (AttributeError ''lora_A'')"
  by (simp add: forward_def)

text \<open>
  C1. The claim is that a layer constructed with \<open>r = 0\<close> returns the frozen base path from
  forward. The constructor accepts \<open>r = 0\<close> (it is the default of the signature) and then
  creates no \<^verbatim>\<open>lora_A\<close>; forward reads \<^verbatim>\<open>self.lora_A.weight.dtype\<close> without a guard and
  raises. Here: the layer of \<^verbatim>\<open>Linear(4, 4)\<close> with the signature's defaults, on an input of
  shape (1, 1, 4); forward raises \<^verbatim>\<open>AttributeError\<close>, while the base path on the same input
  returns a tensor.
\<close>

theorem forward_rank_zero_raises:
  "bind_err (Linear_init example_source 4 4 True 0 (Some 1) (Some 0) False True False False)
     (\<lambda>L. forward L (\<lambda>i. True) (Tensor [1, 1, 4] [1, 2, 3, 4]))
   = Inl (AttributeError ''lora_A'')
   \<and> \<not> isl (bind_err (Linear_init example_source 4 4 True 0 (Some 1) (Some 0) False True False False)
        (\<lambda>L. base_path L (Tensor [1, 1, 4] [1, 2, 3, 4])))"
  by (simp add: forward_eval_simps)

section \<open>Inputs of rank two\<close>

text \<open>
  C2. The claim is that forward succeeds on inputs of shape (batch, in_features) and
  (batch, sequence, in_features) when \<open>r > 0\<close> and both feature counts are divisible by 4. On
  an input of rank two the gate has rank three and the source calls \<^verbatim>\<open>torch.enisum\<close>
  (a misspelling of \<^verbatim>\<open>einsum\<close>), which raises \<^verbatim>\<open>AttributeError\<close>. Here: in_features =
  out_features = 4, \<open>r = 1\<close>, router enabled, input of shape (1, 4).
\<close>

theorem forward_2d_input_raises:
  "bind_err (Linear_init example_source 4 4 True 1 (Some 1) (Some 0) False False True False)
     (\<lambda>L. forward L (\<lambda>i. True) (Tensor [1, 4] [1, 2, 3, 4]))
   = Inl (AttributeError ''enisum'')"
  by (simp add: forward_eval_simps)

section \<open>The router flag\<close>

text \<open>
  C3. The claim is that with the routing flag off forward still computes the router
  projection R, uses its raw output as the gate, and completes. \<^verbatim>\<open>Linear.__init__\<close>,
  \<^verbatim>\<open>reset_parameters\<close>, \<^verbatim>\<open>train\<close> and \<^verbatim>\<open>eval\<close> all guard \<^verbatim>\<open>lora_R\<close> with
  \<^verbatim>\<open>if self.lora_router\<close>, so with the flag off the layer has no \<^verbatim>\<open>lora_R\<close>; forward calls
  \<^verbatim>\<open>self.lora_R(dropout_x)\<close> without that guard, before it tests the flag, and raises
  \<^verbatim>\<open>AttributeError\<close>. Here: in_features = out_features = 4, \<open>r = 1\<close>, alpha 1, no dropout,
  routing flag off, input of shape (1, 1, 4).
\<close>

theorem forward_router_disabled_raises:
  "bind_err (Linear_init example_source 4 4 True 1 (Some 1) (Some 0) False False False False)
     (\<lambda>L. forward L (\<lambda>i. True) (Tensor [1, 1, 4] [1, 2, 3, 4]))
   = Inl (AttributeError ''lora_R'')"
  by (simp add: forward_eval_simps)

section \<open>Merging\<close>

text \<open>
  C4. The claim is that eval on a layer with \<open>r > 0\<close> and \<^verbatim>\<open>merge_weights=True\<close> folds the
  low-rank delta into the frozen weight and sets \<^verbatim>\<open>merged\<close> to true. The docstring of
  \<^verbatim>\<open>LoraConfig\<close> says the same of \<^verbatim>\<open>merge_weights\<close> (whether to merge the weights of the
  Lora layers with the base transformer model in eval mode), and the layer keeps the
  attributes \<^verbatim>\<open>merged\<close> and \<^verbatim>\<open>merge_weights\<close>; but \<^verbatim>\<open>Linear.eval\<close> only switches the
  sub-layers to eval mode, and \<^verbatim>\<open>nn.Module.eval\<close>, which it calls first, is
  \<^verbatim>\<open>self.train(False)\<close>, which sets \<^verbatim>\<open>merged\<close> to false. Here: in_features =
  out_features = 4, \<open>r = 1\<close>, alpha 2, no dropout, \<^verbatim>\<open>merge_weights=True\<close>, router enabled;
  after eval \<^verbatim>\<open>merged\<close> is false.
\<close>

theorem eval_does_not_merge:
  "map_sum id merged
     (bind_err (Linear_init example_source 4 4 True 1 (Some 2) (Some 0) False True True False)
        Linear_eval) = Inr False"
  by (simp add: Linear_init_def LoraLayer_init_def Linear_eval_def Linear_train_def)

text \<open>
  The same on every adapter layer with \<open>r > 0\<close>, whatever \<^verbatim>\<open>merge_weights\<close> is: eval and
  train change the training flag, set \<^verbatim>\<open>merged\<close> to false and leave every other attribute,
  the frozen weight among them, as it was.
\<close>

lemma train_eval_only_switch_mode:
  assumes "0 < lora_rank self" "adapter_created self"
  shows "Linear_eval self = Inr (self\<lparr>training := False, merged := False\<rparr>)
       \<and> Linear_train self mode = Inr (self\<lparr>training := mode, merged := False\<rparr>)
       \<and> weight (self\<lparr>training := mode, merged := False\<rparr>) = weight self"
  using assms
  by (auto simp: adapter_created_def Linear_eval_def Linear_train_def split: option.splits)

lemma train_eval_only_switch_mode_example:
  "0 < lora_rank example_layer \<and> adapter_created example_layer
   \<and> merge_weights example_layer
   \<and> Linear_eval example_layer = Inr (example_layer\<lparr>training := False, merged := False\<rparr>)
   \<and> Linear_train example_layer True = Inr (example_layer\<lparr>training := True, merged := False\<rparr>)"
proof -
  have h: "0 < lora_rank example_layer" "adapter_created example_layer" "merge_weights example_layer"
    by (simp_all add: example_layer_def Linear_init_def LoraLayer_init_def adapter_created_def)
  show ?thesis
    using h train_eval_only_switch_mode [OF h(1) h(2), of True] by simp
qed

section \<open>Scaling in exact arithmetic\<close>

text \<open>
  The source computes in floating point: \<^verbatim>\<open>lora_alpha / r\<close>, the product with
  \<^verbatim>\<open>self.scaling\<close> and the sum \<^verbatim>\<open>lora_result + org_result\<close> all round, so the difference
  between the output and the base path is not the adapter path, and whether halving alpha
  halves it exactly depends on the rounding. The tensors of this theory hold real numbers, so
  the question of the claim C8 cannot be put to them. What can be said here is a fact of
  the exact-arithmetic reading of forward only: there, for a layer with \<open>r > 0\<close>, no dropout
  and \<^verbatim>\<open>scaling = lora_alpha / r\<close>, the output minus the base path with alpha / 2 is one
  half of that with alpha, and where forward raises with alpha it raises the same error with
  alpha / 2.
\<close>

lemma halving_alpha_halves_contribution_real:
  assumes "0 < lora_rank self" and "lora_dropout self = IdentityFn"
    and "lora_alpha self = Some a"
    and "scaling self = Some (a / real_of_int (lora_rank self))"
  shows "low_rank_contribution
           (self\<lparr>lora_alpha := Some (a / 2),
                  scaling := Some ((a / 2) / real_of_int (lora_rank self))\<rparr>) keep x
       = map_sum id (\<lambda>d. smul d (1 / 2)) (low_rank_contribution self keep x)"
proof -
  have "self\<lparr>scaling := Some (a / real_of_int (lora_rank self))\<rparr> = self"
    using assms(4) by simp
  then show ?thesis
    using contribution_scaled
      [where self = self and al = "Some (a / 2)" and sc = "a / real_of_int (lora_rank self)"
         and c = "1 / 2" and keep = keep and x = x]
    by (simp add: mult.commute)
qed

lemma halving_alpha_halves_contribution_real_example:
  "0 < lora_rank trained_layer \<and> lora_dropout trained_layer = IdentityFn
   \<and> lora_alpha trained_layer = Some 2
   \<and> scaling trained_layer = Some (2 / real_of_int (lora_rank trained_layer))
   \<and> low_rank_contribution
         (trained_layer\<lparr>lora_alpha := Some (2 / 2),
                  scaling := Some ((2 / 2) / real_of_int (lora_rank trained_layer))\<rparr>)
         (\<lambda>i. True) (Tensor [1, 1, 4] [1, 2, 3, 4])
       = map_sum id (\<lambda>d. smul d (1 / 2))
           (low_rank_contribution trained_layer (\<lambda>i. True) (Tensor [1, 1, 4] [1, 2, 3, 4]))
   \<and> \<not> isl (low_rank_contribution trained_layer (\<lambda>i. True) (Tensor [1, 1, 4] [1, 2, 3, 4]))"
proof -
  have h: "0 < lora_rank trained_layer" "lora_dropout trained_layer = IdentityFn"
    "lora_alpha trained_layer = Some 2"
    "scaling trained_layer = Some (2 / real_of_int (lora_rank trained_layer))"
    by (simp_all add: trained_layer_def example_layer_def Linear_init_def LoraLayer_init_def)
  have ok: "\<not> isl (low_rank_contribution trained_layer (\<lambda>i. True) (Tensor [1, 1, 4] [1, 2, 3, 4]))"
    by (simp add: low_rank_contribution_def trained_layer_def example_layer_def forward_eval_simps)
  show ?thesis
    using h ok halving_alpha_halves_contribution_real [OF h, of "\<lambda>i. True" "Tensor [1, 1, 4] [1, 2, 3, 4]"]
    by simp
qed

section \<open>The freshly constructed layer\<close>

text \<open>
  C9. The claim is that a freshly constructed layer with \<open>r > 0\<close> and the router enabled
  returns the frozen base path for every input, because \<^verbatim>\<open>lora_B\<close> is zero. On an input of
  rank two forward raises before \<^verbatim>\<open>lora_B\<close> is reached (\<^verbatim>\<open>torch.enisum\<close>), while the base
  path returns a tensor. Here: the layer of the source's \<^verbatim>\<open>__main__\<close> block (768, 768,
  \<open>r = 8\<close>, alpha 16, dropout 0.01, router enabled), on a zero input of shape (4, 768).
\<close>

theorem fresh_layer_2d_input_raises:
  "bind_err (Linear_init example_source 768 768 True 8 (Some 16) (Some 0.01) False False True False)
     (\<lambda>L. forward L (\<lambda>i. True) (zeros [4, 768]))
   = Inl (AttributeError ''enisum'')
   \<and> \<not> isl (bind_err (Linear_init example_source 768 768 True 8 (Some 16) (Some 0.01) False False True False)
        (\<lambda>L. base_path L (zeros [4, 768])))"
  by (simp add: forward_eval_simps)

section \<open>Construction with unset hyper-parameters\<close>

text \<open>
  C10. With \<open>r > 0\<close>, constructing the layer with the dropout probability left unset fails:
  the comparison of the dropout value against 0.0 raises before any adapter parameter is
  created, whatever the other arguments are (also when alpha is unset too). With the dropout
  probability set to a value nn.Dropout accepts and alpha left unset, construction fails at
  the computation of the scaling. In neither case is a layer returned.
\<close>

theorem unset_dropout_or_alpha_fails:
  "0 < r \<Longrightarrow>
     Linear_init src in_f out_f use_bias r alpha None fifo mw router mixer
       = Inl (TypeError ''> not supported between NoneType and float'')
   \<and> (p \<le> 1 \<longrightarrow>
        Linear_init src in_f out_f use_bias r None (Some p) fifo mw router mixer
          = Inl (TypeError ''unsupported operand type(s) for /: NoneType and int''))
   \<and> isl (Linear_init src in_f out_f use_bias r None dropout_p fifo mw router mixer)"
  by (auto simp: Linear_init_def LoraLayer_init_def split: option.splits)

theorem unset_dropout_or_alpha_fails_witness:
  "(0::int) < 8
   \<and> Linear_init example_source 768 768 True 8 None None False False True False
       = Inl (TypeError ''> not supported between NoneType and float'')
   \<and> Linear_init example_source 768 768 True 8 None (Some 0) False False True False
       = Inl (TypeError ''unsupported operand type(s) for /: NoneType and int'')"
  using unset_dropout_or_alpha_fails
    [where r = 8 and p = 0 and src = example_source and in_f = 768 and out_f = 768
       and use_bias = True and alpha = None and fifo = False and mw = False
       and router = True and mixer = False and dropout_p = None]
  by simp

section \<open>Inputs of rank three\<close>

text \<open>
  The shapes \<^verbatim>\<open>Linear.__init__\<close> gives the parameters of a layer with \<open>r > 0\<close> and the
  router enabled, for feature counts divisible by the head count; a training update keeps
  them. \<^verbatim>\<open>_replace_module\<close> puts the weight and the bias of the replaced layer in place,
  which have the same shapes.
\<close>

definition shapes_ok :: "Linear \<Rightarrow> bool" where
  "shapes_ok self =
     (0 < lora_rank self
      \<and> in_features self mod 4 = 0 \<and> out_features self mod 4 = 0
      \<and> map_option (\<lambda>p. shape (data p)) (lora_A self)
          = Some [nat (lora_rank self), in_features self div 4]
      \<and> map_option (\<lambda>p. shape (data p)) (lora_R self)
          = Some [if lora_router_mixer self then nat (lora_rank self) * nat (lora_rank self)
                  else nat (lora_rank self),
                  in_features self div 4]
      \<and> map_option (\<lambda>p. shape (data p)) (lora_B self)
          = Some [out_features self div 4, nat (lora_rank self)]
      \<and> scaling self \<noteq> None
      \<and> shape (data (weight self))
          = (if fan_in_fan_out self then [in_features self, out_features self]
             else [out_features self, in_features self])
      \<and> (case bias self of None \<Rightarrow> True | Some p \<Rightarrow> shape (data p) = [out_features self]))"

lemma bdim_same [simp]: "bdim a a = a" by (simp add: bdim_def)
lemma compatible_same [simp]: "compatible a a" by (simp add: compatible_def)


lemma F_linear_shape:
  assumes "shape w = [n_out, n_in]" and "shape x = pre @ [n_in]"
    and "case b of None \<Rightarrow> True | Some bt \<Rightarrow> shape bt = [n_out]"
  shows "\<exists>y. F_linear x w b = Inr y \<and> shape y = pre @ [n_out] \<and> wf_tensor y"
  using assms by (auto simp: F_linear_def split: option.splits)

lemma rearrange_b_s_hd_shape:
  assumes "shape t = [b, s, f]" and "f mod h = 0"
  shows "\<exists>u. rearrange_b_s_hd h t = Inr u \<and> shape u = [b * h, s, f div h]"
  using assms by (simp add: rearrange_b_s_hd_def)

lemma rearrange_bh_s_d_shape:
  assumes "shape t = [b * h, s, d]" and "0 < h"
  shows "\<exists>u. rearrange_bh_s_d h t = Inr u \<and> shape u = [b, s, h * d]"
  using assms by (simp add: rearrange_bh_s_d_def)

lemma einsum_shape:
  assumes "shape left = [b, n, r]" and "shape gate = [b, n, r, k]"
  shows "\<exists>u. einsum_bnr_bnrk left gate = Inr u \<and> shape u = [b, n, k]"
  using assms by (simp add: einsum_bnr_bnrk_def)

lemma shape_softmax [simp]: "shape (softmax t) = shape t"
  by (simp add: softmax_def)

lemma gate_shape:
  assumes "shape router_out = [b, n, if mixer then r * r else r]"
  shows "\<exists>g. (if \<not> mixer then diag_embed (softmax router_out)
               else reshape (softmax router_out) (butlast (shape router_out) @ [r, r])) = Inr g
             \<and> shape g = [b, n, r, r]"
  using assms by (auto simp: diag_embed_def reshape_def)

lemma tensor_add_same_shape:
  assumes "shape u = shape v"
  shows "\<exists>y. tensor_add u v = Inr y \<and> shape y = shape u"
proof -
  have "broadcastable (shape v) (shape v)"
    by (simp add: broadcastable_def pad_shape_def list_all2_same)
  moreover have "bshape (shape v) (shape v) = shape v"
    by (simp add: bshape_def pad_shape_def map2_map_map [symmetric] zip_same_conv_map comp_def)
  ultimately show ?thesis using assms by (simp add: tensor_add_def tensor_binop_def)
qed

lemma forward_3d_unfold:
  assumes ok: "shapes_ok self" and r: "lora_router self" and en: "\<not> disable_adapters self"
    and x: "shape x = [b, s, in_features self]"
    and B: "lora_B self = Some B" and sc: "scaling self = Some sc"
  shows "\<exists>moe. shape moe = [b * 4, s] @ [nat (lora_rank self)]
           \<and> forward self keep x
             = bind_err (F_linear moe (data B) None) (\<lambda>b_out.
                 bind_err (rearrange_bh_s_d lora_head (smul b_out sc)) (\<lambda>lora_result.
                   bind_err (base_path self x) (\<lambda>org_result. tensor_add lora_result org_result)))"
proof -
  define rk where "rk = nat (lora_rank self)"
  from ok obtain A R where
    A: "lora_A self = Some A" "shape (data A) = [rk, in_features self div 4]"
    and R: "lora_R self = Some R"
      "shape (data R) = [if lora_router_mixer self then rk * rk else rk, in_features self div 4]"
    by (auto simp: shapes_ok_def rk_def)
  from ok have m: "in_features self mod 4 = 0" and rp: "0 < lora_rank self"
    by (auto simp: shapes_ok_def)
  obtain dx where dx: "rearrange_b_s_hd lora_head
        (apply_dropout (lora_dropout self) (training self) keep x) = Inr dx"
    and sdx: "shape dx = [b * 4, s] @ [in_features self div 4]"
    using rearrange_b_s_hd_shape [of "apply_dropout (lora_dropout self) (training self) keep x"
        b s "in_features self" 4] x m
    by (auto simp: lora_head_def)
  obtain left where left: "F_linear dx (data A) None = Inr left"
    and sleft: "shape left = [b * 4, s, rk]"
    using F_linear_shape [OF A(2) sdx, of None] by auto
  obtain ro where ro: "F_linear dx (data R) None = Inr ro"
    and sro: "shape ro = [b * 4, s, if lora_router_mixer self then rk * rk else rk]"
    using F_linear_shape [OF R(2) sdx, of None] by auto
  obtain g where g: "(if \<not> lora_router_mixer self then diag_embed (softmax ro)
               else reshape (softmax ro) (butlast (shape ro) @ [rk, rk])) = Inr g"
    and sg: "shape g = [b * 4, s, rk, rk]"
    using gate_shape [OF sro] by auto
  obtain moe where moe: "einsum_bnr_bnrk left g = Inr moe"
    and smoe: "shape moe = [b * 4, s] @ [rk]"
    using einsum_shape [OF sleft sg] by auto
  have gate: "(if \<not> lora_router_mixer self then diag_embed (softmax ro)
                 else if lora_rank self < 0
                 then Inl (RuntimeError ''invalid shape dimension'')
                 else reshape (softmax ro)
                        (butlast (shape ro) @ [nat (lora_rank self), nat (lora_rank self)])) = Inr g"
    using g rp by (auto simp: rk_def split: if_splits)
  have "forward self keep x
      = bind_err (F_linear moe (data B) None) (\<lambda>b_out.
          bind_err (rearrange_bh_s_d lora_head (smul b_out sc)) (\<lambda>lora_result.
            bind_err (base_path self x) (\<lambda>org_result. tensor_add lora_result org_result)))"
    using en r
    by (simp add: forward_def A(1) R(1) B sc x dx left ro gate sg moe base_path_def)
  then show ?thesis using smoe by (auto simp: rk_def)
qed

lemma base_path_shape:
  assumes ok: "shapes_ok self" and x: "shape x = pre @ [in_features self]"
  shows "\<exists>org. base_path self x = Inr org \<and> shape org = pre @ [out_features self] \<and> wf_tensor org"
proof -
  from ok have W: "shape (data (weight self))
          = (if fan_in_fan_out self then [in_features self, out_features self]
             else [out_features self, in_features self])"
    and bi: "(case bias self of None \<Rightarrow> True | Some p \<Rightarrow> shape (data p) = [out_features self])"
    by (auto simp: shapes_ok_def)
  have sW: "shape (transpose_weight (data (weight self)) (fan_in_fan_out self))
      = [out_features self, in_features self]"
    using W by (simp add: transpose_weight_def transpose2_def)
  have "case map_option data (bias self) of None \<Rightarrow> True | Some bt \<Rightarrow> shape bt = [out_features self]"
    using bi by (simp split: option.splits)
  from F_linear_shape [OF sW x this] show ?thesis by (simp add: base_path_def)
qed

text \<open>
  X1. For a layer with \<open>r > 0\<close>, the router enabled, adapters not disabled and feature counts
  divisible by 4, forward returns on every input of shape (batch, sequence, in_features), and
  the output has shape (batch, sequence, out_features).
\<close>

theorem forward_3d_shape:
  assumes ok: "shapes_ok self" and r: "lora_router self" and en: "\<not> disable_adapters self"
    and x: "shape x = [b, s, in_features self]"
  shows "map_sum id shape (forward self keep x) = Inr [b, s, out_features self]"
proof -
  from ok obtain B sc where
    B: "lora_B self = Some B" "shape (data B) = [out_features self div 4, nat (lora_rank self)]"
    and sc: "scaling self = Some sc"
    and m: "out_features self mod 4 = 0"
    by (auto simp: shapes_ok_def)
  have o4: "4 * (out_features self div 4) = out_features self" using m by auto
  from forward_3d_unfold [OF ok r en x B(1) sc, of keep]
  obtain moe where smoe: "shape moe = [b * 4, s] @ [nat (lora_rank self)]"
    and fw: "forward self keep x
             = bind_err (F_linear moe (data B) None) (\<lambda>b_out.
                 bind_err (rearrange_bh_s_d lora_head (smul b_out sc)) (\<lambda>lora_result.
                   bind_err (base_path self x) (\<lambda>org_result. tensor_add lora_result org_result)))"
    by blast
  obtain bo where bo: "F_linear moe (data B) None = Inr bo"
    and sbo: "shape bo = [b * 4, s, out_features self div 4]"
    using F_linear_shape [OF B(2) smoe, of None] by auto
  obtain lo where lo: "rearrange_bh_s_d lora_head (smul bo sc) = Inr lo"
    and slo: "shape lo = [b, s, out_features self]"
    using rearrange_bh_s_d_shape [of "smul bo sc" b 4 s "out_features self div 4"] sbo o4
    by (auto simp: lora_head_def)
  obtain org where org: "base_path self x = Inr org"
    and sorg: "shape org = [b, s, out_features self]"
    using base_path_shape [OF ok, of x "[b, s]"] x by auto
  obtain y where y: "tensor_add lo org = Inr y" and sy: "shape y = [b, s, out_features self]"
    using tensor_add_same_shape [of lo org] slo sorg by auto
  show ?thesis by (simp add: fw bo lo org y sy)
qed

lemma ravel_unravel: "i < prod_list shp \<Longrightarrow> ravel shp (unravel shp i) = i"
proof (induction shp arbitrary: i)
  case Nil
  then show ?case by simp
next
  case (Cons n ns)
  have pos: "0 < prod_list ns" using Cons.prems by (cases "prod_list ns = 0") auto
  then have "ravel ns (unravel ns (i mod prod_list ns)) = i mod prod_list ns"
    using Cons.IH by simp
  then show ?case by simp
qed

lemma build_entry_id:
  assumes "wf_tensor v"
  shows "build (shape v) (entry v) = v"
proof -
  have "map (\<lambda>i. entry v (unravel (shape v) i)) [0..<prod_list (shape v)] = vals v"
    using assms by (intro nth_equalityI) (simp_all add: wf_tensor_def entry_def ravel_unravel)
  then show ?thesis by (cases v) (simp add: build_def)
qed

lemma entry_zeros: "valid_index shp idx \<Longrightarrow> entry (zeros shp) idx = 0"
  using ravel_bound [of shp idx] by (simp add: entry_def zeros_def)

lemma sum_list_all_zero:
  fixes f :: "'a \<Rightarrow> real"
  shows "(\<And>k. k \<in> set ks \<Longrightarrow> f k = 0) \<Longrightarrow> sum_list (map f ks) = 0"
  by (induction ks) simp_all

lemma valid_index_append_last:
  assumes "valid_index (pre @ [n]) idx"
  shows "last idx < n"
proof -
  from assms have len: "length idx = Suc (length pre)"
    by (simp add: valid_index_def list_all2_lengthD)
  then have ne: "idx \<noteq> []" by auto
  from assms have "idx ! length pre < (pre @ [n]) ! length pre"
    using len by (simp add: valid_index_def list_all2_conv_all_nth del: nth_append_length)
  then show ?thesis using len ne by (simp add: last_conv_nth)
qed

lemma F_linear_zero_weight:
  assumes "shape x = pre @ [n_in]"
  shows "F_linear x (zeros [n_out, n_in]) None = Inr (build (pre @ [n_out]) (\<lambda>idx. 0))"
proof -
  have "build (pre @ [n_out])
          (\<lambda>idx. (\<Sum>k\<leftarrow>[0..<n_in]. entry x (butlast idx @ [k]) * entry (zeros [n_out, n_in]) [last idx, k]) + 0)
      = build (pre @ [n_out]) (\<lambda>idx. 0)"
  proof (rule build_cong)
    fix idx assume v: "valid_index (pre @ [n_out]) idx"
    have l: "last idx < n_out" using v by (rule valid_index_append_last)
    have "(\<Sum>k\<leftarrow>[0..<n_in]. entry x (butlast idx @ [k]) * entry (zeros [n_out, n_in]) [last idx, k]) = 0"
      using l by (intro sum_list_all_zero) (simp add: entry_zeros valid_index2)
    then show "(\<Sum>k\<leftarrow>[0..<n_in]. entry x (butlast idx @ [k]) * entry (zeros [n_out, n_in]) [last idx, k]) + 0 = 0"
      by simp
  qed
  then show ?thesis using assms by (simp add: F_linear_def)
qed

lemma rearrange_bh_s_d_zero:
  assumes "0 < h"
  shows "rearrange_bh_s_d h (build [b * h, s, d] (\<lambda>idx. 0)) = Inr (build [b, s, h * d] (\<lambda>idx. 0))"
proof -
  have "build [b, s, h * d]
          (\<lambda>idx. entry (build [b * h, s, d] (\<lambda>idx. 0)) [idx ! 0 * h + idx ! 2 div d, idx ! 1, idx ! 2 mod d])
      = build [b, s, h * d] (\<lambda>idx. 0)"
  proof (rule build_cong)
    fix idx assume "valid_index [b, s, h * d] idx"
    then obtain i j k where idx: "idx = [i, j, k]" and bd: "i < b" "j < s" "k < h * d"
      by (auto simp: valid_index3)
    have "i < (b * h) div h" using bd(1) assms by simp
    from merge_index_bound [OF this bd(3)] bd(2)
    have "valid_index [b * h, s, d] [i * h + k div d, j, k mod d]"
      by (simp add: valid_index3)
    then show "entry (build [b * h, s, d] (\<lambda>idx. 0)) [idx ! 0 * h + idx ! 2 div d, idx ! 1, idx ! 2 mod d] = 0"
      by (simp add: idx entry_build)
  qed
  then show ?thesis using assms by (simp add: rearrange_bh_s_d_def)
qed

lemma tensor_add_zero_left:
  assumes "wf_tensor v"
  shows "tensor_add (build (shape v) (\<lambda>idx. 0)) v = Inr v"
proof -
  have b: "broadcastable (shape v) (shape v)"
    by (simp add: broadcastable_def pad_shape_def list_all2_same)
  have s: "bshape (shape v) (shape v) = shape v"
    by (simp add: bshape_def pad_shape_def map2_map_map [symmetric] zip_same_conv_map comp_def)
  have "build (shape v)
          (\<lambda>idx. entry (build (shape v) (\<lambda>idx. 0)) (bindex (shape v) idx) + entry v (bindex (shape v) idx))
      = build (shape v) (entry v)"
    by (rule build_cong) (simp add: bindex_valid_id entry_build)
  then show ?thesis
    using b s assms by (simp add: tensor_add_def tensor_binop_def build_entry_id)
qed


lemma forward_zero_B:
  assumes ok: "shapes_ok self" and r: "lora_router self" and en: "\<not> disable_adapters self"
    and x: "shape x = [b, s, in_features self]"
    and B: "lora_B self = Some B"
    and zB: "data B = zeros [out_features self div 4, nat (lora_rank self)]"
  shows "forward self keep x = base_path self x \<and> \<not> isl (base_path self x)"
proof -
  from ok obtain sc where sc: "scaling self = Some sc"
    and m: "out_features self mod 4 = 0"
    by (auto simp: shapes_ok_def)
  have o4: "4 * (out_features self div 4) = out_features self" using m by auto
  from forward_3d_unfold [OF ok r en x B sc, of keep]
  obtain moe where smoe: "shape moe = [b * 4, s] @ [nat (lora_rank self)]"
    and fw: "forward self keep x
             = bind_err (F_linear moe (data B) None) (\<lambda>b_out.
                 bind_err (rearrange_bh_s_d lora_head (smul b_out sc)) (\<lambda>lora_result.
                   bind_err (base_path self x) (\<lambda>org_result. tensor_add lora_result org_result)))"
    by blast
  have bo: "F_linear moe (data B) None = Inr (build [b * 4, s, out_features self div 4] (\<lambda>idx. 0))"
    using F_linear_zero_weight [OF smoe, of "out_features self div 4"] by (simp add: zB)
  have lo: "rearrange_bh_s_d lora_head (smul (build [b * 4, s, out_features self div 4] (\<lambda>idx. 0)) sc)
      = Inr (build [b, s, out_features self] (\<lambda>idx. 0))"
    using rearrange_bh_s_d_zero [of 4 b s "out_features self div 4"] o4
    by (simp add: smul_build lora_head_def)
  obtain org where org: "base_path self x = Inr org"
    and sorg: "shape org = [b, s, out_features self]" and wf: "wf_tensor org"
    using base_path_shape [OF ok, of x "[b, s]"] x by auto
  have "tensor_add (build [b, s, out_features self] (\<lambda>idx. 0)) org = Inr org"
    using tensor_add_zero_left [OF wf] by (simp add: sorg)
  then show ?thesis by (simp add: fw bo lo org)
qed

lemma Linear_init_shapes_ok:
  assumes "0 < r" and "in_f mod 4 = 0" and "out_f mod 4 = 0"
    and "Linear_init src in_f out_f use_bias r alpha dropout_p fifo mw True mixer = Inr L"
  shows "shapes_ok L \<and> lora_router L \<and> \<not> disable_adapters L \<and> in_features L = in_f
       \<and> out_features L = out_f
       \<and> map_option data (lora_B L) = Some (zeros [out_f div 4, nat r]) \<and> lora_rank L = r"
proof -
  have sq: "nat (r ^ 2) = nat r * nat r"
    using assms(1) by (simp add: power2_eq_square nat_mult_distrib)
  obtain dp where dp: "LoraLayer_init dropout_p = Inr dp"
    using assms(4) by (cases "LoraLayer_init dropout_p") (simp_all add: Linear_init_def)
  obtain a where a: "alpha = Some a"
    using assms(1,4) dp by (cases alpha) (simp_all add: Linear_init_def)
  have L: "L = projr (Linear_init src in_f out_f use_bias r alpha dropout_p fifo mw True mixer)"
    using assms(4) by simp
  show ?thesis
    unfolding L using assms(1-3)
    by (simp add: Linear_init_def dp a shapes_ok_def transpose2_def sq)
qed

text \<open>
  X2. A freshly constructed layer with \<open>r > 0\<close>, the router enabled and feature counts
  divisible by 4 returns, on every input of shape (batch, sequence, in_features) and for
  every dropout draw, exactly the frozen base path: \<^verbatim>\<open>lora_B\<close> is zero, so the low-rank path
  adds zero.
\<close>

theorem fresh_layer_3d_equals_base:
  assumes "0 < r" and "in_f mod 4 = 0" and "out_f mod 4 = 0"
    and "Linear_init src in_f out_f use_bias r alpha dropout_p fifo mw True mixer = Inr L"
    and "shape x = [b, s, in_f]"
  shows "forward L keep x = base_path L x \<and> \<not> isl (base_path L x)"
proof -
  note i = Linear_init_shapes_ok [OF assms(1-4)]
  from i obtain B where B: "lora_B L = Some B" "data B = zeros [out_features L div 4, nat (lora_rank L)]"
    by auto
  from i assms(5) have x: "shape x = [b, s, in_features L]" by simp
  from i have ok: "shapes_ok L" and r: "lora_router L" and en: "\<not> disable_adapters L" by simp_all
  show ?thesis by (rule forward_zero_B [OF ok r en x B])
qed

text \<open>The layer of the source's \<^verbatim>\<open>__main__\<close> block.\<close>

definition main_layer :: Linear where
  "main_layer =
     projr (Linear_init example_source 768 768 True 8 (Some 16) (Some (1 / 100)) False False True False)"

lemma main_layer_constructed:
  "Linear_init example_source 768 768 True 8 (Some 16) (Some (1 / 100)) False False True False
     = Inr main_layer"
  by (simp add: main_layer_def Linear_init_def LoraLayer_init_def)

theorem forward_3d_shape_witness:
  "shapes_ok main_layer \<and> lora_router main_layer \<and> \<not> disable_adapters main_layer
   \<and> shape (zeros [4, 16, 768]) = [4, 16, in_features main_layer]
   \<and> map_sum id shape (forward main_layer (\<lambda>i. True) (zeros [4, 16, 768]))
       = Inr [4, 16, out_features main_layer]
   \<and> out_features main_layer = 768"
proof -
  have i: "shapes_ok main_layer \<and> lora_router main_layer \<and> \<not> disable_adapters main_layer
       \<and> in_features main_layer = 768 \<and> out_features main_layer = 768"
    using Linear_init_shapes_ok [OF _ _ _ main_layer_constructed] by simp
  then have x: "shape (zeros [4, 16, 768]) = [4, 16, in_features main_layer]" by simp
  from i have ok: "shapes_ok main_layer" and r: "lora_router main_layer"
    and en: "\<not> disable_adapters main_layer" by simp_all
  show ?thesis
    using forward_3d_shape [OF ok r en x, of "\<lambda>i. True"] i x by simp
qed

theorem fresh_layer_3d_equals_base_witness:
  "(0::int) < 8 \<and> (768::nat) mod 4 = 0
   \<and> Linear_init example_source 768 768 True 8 (Some 16) (Some (1 / 100)) False False True False
       = Inr main_layer
   \<and> shape (zeros [4, 16, 768]) = [4, 16, 768]
   \<and> forward main_layer (\<lambda>i. True) (zeros [4, 16, 768]) = base_path main_layer (zeros [4, 16, 768])
   \<and> \<not> isl (base_path main_layer (zeros [4, 16, 768]))"
proof -
  have x: "shape (zeros [4, 16, 768]) = [4, 16, 768]" by simp
  show ?thesis
    using fresh_layer_3d_equals_base [OF _ _ _ main_layer_constructed x, of "\<lambda>i. True"]
      main_layer_constructed
    by simp
qed

section \<open>Calls of forward that always raise\<close>

text \<open>
  On an input of rank two the gate has rank three when the router flag is set, so the source
  reaches \<^verbatim>\<open>torch.enisum\<close>; when the flag is not set the raw router output has rank two and
  \<^verbatim>\<open>torch.einsum\<close> rejects the operands. Either way no layer returns from forward on an
  input of rank two. A layer constructed with the router flag off has no \<^verbatim>\<open>lora_R\<close> and
  returns from forward on no input.
\<close>

lemma rearrange_b_hd_rank: "rearrange_b_hd h t = Inr v \<Longrightarrow> length (shape v) = 2"
  by (auto simp: rearrange_b_hd_def split: list.splits if_splits)

lemma F_linear_rank: "F_linear x w b = Inr y \<Longrightarrow> length (shape y) = length (shape x)"
  by (auto simp: F_linear_def split: if_splits)

lemma diag_embed_rank: "diag_embed t = Inr g \<Longrightarrow> length (shape g) = Suc (length (shape t))"
  by (auto simp: diag_embed_def split: if_splits)

lemma reshape_shape: "reshape t shp = Inr g \<Longrightarrow> shape g = shp"
  by (auto simp: reshape_def split: if_splits)

lemma einsum_rank: "einsum_bnr_bnrk left gate = Inr u \<Longrightarrow> length (shape left) = 3"
  by (auto simp: einsum_bnr_bnrk_def split: list.splits if_splits)

lemma forward_B_out_rank_two_fails:
  assumes "length (shape x) = 2"
  shows "isl (forward_B_out self keep x)"
proof (rule ccontr)
  assume "\<not> isl (forward_B_out self keep x)"
  then obtain t where t: "forward_B_out self keep x = Inr t"
    by (cases "forward_B_out self keep x") auto
  from t assms show False
    unfolding forward_B_out_def
    by (auto split: if_splits option.splits
        dest!: bind_err_InrD rearrange_b_hd_rank F_linear_rank diag_embed_rank reshape_shape
          einsum_rank)
qed

lemma forward_rank_two_fails:
  "length (shape x) = 2 \<Longrightarrow> isl (forward self keep x)"
  using forward_B_out_rank_two_fails [of x self keep]
  by (cases "forward_B_out self keep x") (simp_all add: forward_split)


lemma forward_without_lora_R:
  "lora_R self = None \<Longrightarrow> isl (forward self keep x)"
  by (auto simp: forward_def bind_err_def split: option.splits sum.splits)

lemma forward_router_flag_off_fails:
  assumes "0 < r"
    and "Linear_init src in_f out_f use_bias r alpha dropout_p fifo mw False mixer = Inr L"
  shows "isl (forward L keep x)"
proof -
  have "lora_R L = None"
    using assms by (auto simp: Linear_init_def split: sum.splits if_splits)
  then show ?thesis by (rule forward_without_lora_R)
qed

section \<open>The host network\<close>

text \<open>
  The host network is a tree of named modules. A node is either an adapter layer (an instance
  of \<^verbatim>\<open>Linear\<close>, the only \<^verbatim>\<open>LoraLayer\<close> that can be constructed) or any other module:
  its kind, its registered parameters (a name bound to a parameter or to \<^verbatim>\<open>None\<close>) and
  its child modules, both in registration order. The tree holds values: a parameter or a
  module shared between two places (tied weights) is outside the model.
\<close>

datatype plain_kind = TorchLinear nat nat | Linear8bitLt nat nat | Conv1D | OtherModule

datatype module =
    LoraLinear Linear
  | Plain plain_kind "(string \<times> param option) list" "(string \<times> module) list"

text \<open>\<^verbatim>\<open>prefix + ('.' if prefix else '') + name\<close>\<close>

definition join_name :: "string \<Rightarrow> string \<Rightarrow> string" where
  "join_name pfx name = pfx @ (if pfx = [] then [] else ''.'') @ name"

text \<open>
  The sub-modules of an adapter layer, as \<^verbatim>\<open>named_modules\<close> and \<^verbatim>\<open>get_submodule\<close> see
  them: \<^verbatim>\<open>lora_dropout\<close> (when it is an \<^verbatim>\<open>nn.Dropout\<close>), \<^verbatim>\<open>lora_A\<close>, \<^verbatim>\<open>lora_R\<close>,
  \<^verbatim>\<open>lora_B\<close>, in the order \<^verbatim>\<open>__init__\<close> assigns them.
\<close>

definition sub_linear :: "param \<Rightarrow> module" where
  "sub_linear p =
     Plain (TorchLinear (shape (data p) ! 1) (shape (data p) ! 0))
       [(''weight'', Some p), (''bias'', None)] []"

definition lora_children :: "Linear \<Rightarrow> (string \<times> module) list" where
  "lora_children L =
     (case lora_dropout L of
        Dropout p \<Rightarrow> [(''lora_dropout'', Plain OtherModule [] [])]
      | IdentityFn \<Rightarrow> [])
     @ (case lora_A L of Some p \<Rightarrow> [(''lora_A'', sub_linear p)] | None \<Rightarrow> [])
     @ (case lora_R L of Some p \<Rightarrow> [(''lora_R'', sub_linear p)] | None \<Rightarrow> [])
     @ (case lora_B L of Some p \<Rightarrow> [(''lora_B'', sub_linear p)] | None \<Rightarrow> [])"

fun children :: "module \<Rightarrow> (string \<times> module) list" where
  "children (LoraLinear L) = lora_children L"
| "children (Plain k ps cs) = cs"

fun own_parameters :: "module \<Rightarrow> (string \<times> param option) list" where
  "own_parameters (LoraLinear L) = [(''weight'', Some (weight L)), (''bias'', bias L)]"
| "own_parameters (Plain k ps cs) = ps"

text \<open>\<^verbatim>\<open>nn.Module.named_modules(prefix)\<close>: the module itself, then its children in order.\<close>

fun named_modules :: "string \<Rightarrow> module \<Rightarrow> (string \<times> module) list" where
  "named_modules pfx (LoraLinear L) =
     (pfx, LoraLinear L) # map (\<lambda>nc. (join_name pfx (fst nc), snd nc)) (lora_children L)"
| "named_modules pfx (Plain k ps cs) =
     (pfx, Plain k ps cs)
       # concat (map (\<lambda>nc. named_modules (join_name pfx (fst nc)) (snd nc)) cs)"

text \<open>
  \<^verbatim>\<open>nn.Module.named_parameters\<close>: for every module of \<^verbatim>\<open>named_modules\<close>, its own
  parameters that are not \<^verbatim>\<open>None\<close>, under the dotted name.
\<close>

definition named_parameters_of :: "string \<Rightarrow> module \<Rightarrow> (string \<times> param) list" where
  "named_parameters_of pfx model =
     concat (map (\<lambda>nm.
        concat (map (\<lambda>kv. case snd kv of None \<Rightarrow> [] | Some p \<Rightarrow> [(join_name (fst nm) (fst kv), p)])
                  (own_parameters (snd nm))))
       (named_modules pfx model))"

definition named_parameters :: "module \<Rightarrow> (string \<times> param) list" where
  "named_parameters model = named_parameters_of [] model"

text \<open>
  A loop \<^verbatim>\<open>for n, p in model.named_parameters(): p.requires_grad = ...\<close> changes every
  parameter in place according to its name; on the tree it is a map over the parameters.
\<close>

fun map_parameters :: "(string \<Rightarrow> param \<Rightarrow> param) \<Rightarrow> string \<Rightarrow> module \<Rightarrow> module" where
  "map_parameters f pfx (LoraLinear L) =
     LoraLinear
       (L\<lparr> weight := f (join_name pfx ''weight'') (weight L),
           bias := map_option (f (join_name pfx ''bias'')) (bias L),
           lora_A := map_option (f (join_name (join_name pfx ''lora_A'') ''weight'')) (lora_A L),
           lora_R := map_option (f (join_name (join_name pfx ''lora_R'') ''weight'')) (lora_R L),
           lora_B := map_option (f (join_name (join_name pfx ''lora_B'') ''weight'')) (lora_B L) \<rparr>)"
| "map_parameters f pfx (Plain k ps cs) =
     Plain k (map (\<lambda>kv. (fst kv, map_option (f (join_name pfx (fst kv))) (snd kv))) ps)
       (map (\<lambda>nc. (fst nc, map_parameters f (join_name pfx (fst nc)) (snd nc))) cs)"

fun unfreeze_lora_bias :: "module \<Rightarrow> module" where
  "unfreeze_lora_bias (LoraLinear L) =
     LoraLinear (L\<lparr>bias := map_option (\<lambda>p. p\<lparr>requires_grad := True\<rparr>) (bias L)\<rparr>)"
| "unfreeze_lora_bias (Plain k ps cs) =
     Plain k ps (map (\<lambda>nc. (fst nc, unfreeze_lora_bias (snd nc))) cs)"

text \<open>
  \<^verbatim>\<open>mark_only_lora_as_trainable\<close>. The network is changed in place, so an exception carries
  the tree as it is when it is raised.
\<close>

definition mark_only_lora_as_trainable :: "module \<Rightarrow> string \<Rightarrow> (error \<times> module) + module" where
  "mark_only_lora_as_trainable model bias_mode =
     (let frozen =
        map_parameters (\<lambda>n p. if sublist ''lora_'' n then p else p\<lparr>requires_grad := False\<rparr>) [] model
      in if bias_mode = ''none'' then Inr frozen
         else if bias_mode = ''all''
         then Inr (map_parameters
                     (\<lambda>n p. if sublist ''bias'' n then p\<lparr>requires_grad := True\<rparr> else p) [] frozen)
         else if bias_mode = ''lora_only'' then Inr (unfreeze_lora_bias frozen)
         else Inl (NotImplementedError [], frozen))"

text \<open>\<^verbatim>\<open>LoraModel._set_adapter_layers\<close>, \<^verbatim>\<open>enable_adapter_layers\<close>, \<^verbatim>\<open>disable_adapter_layers\<close>.\<close>

fun set_adapter_layers :: "bool \<Rightarrow> module \<Rightarrow> module" where
  "set_adapter_layers enabled (LoraLinear L) =
     LoraLinear (L\<lparr>disable_adapters := (if enabled then False else True)\<rparr>)"
| "set_adapter_layers enabled (Plain k ps cs) =
     Plain k ps (map (\<lambda>nc. (fst nc, set_adapter_layers enabled (snd nc))) cs)"

definition enable_adapter_layers :: "module \<Rightarrow> module" where
  "enable_adapter_layers model = set_adapter_layers True model"

definition disable_adapter_layers :: "module \<Rightarrow> module" where
  "disable_adapter_layers model = set_adapter_layers False model"

text \<open>The adapter layers of a network: the modules for which \<^verbatim>\<open>isinstance(module, LoraLayer)\<close> holds.\<close>

fun adapter_layers :: "module \<Rightarrow> Linear list" where
  "adapter_layers (LoraLinear L) = [L]"
| "adapter_layers (Plain k ps cs) = concat (map (\<lambda>nc. adapter_layers (snd nc)) cs)"


section \<open>Finding and replacing the target modules\<close>

text \<open>
  \<^verbatim>\<open>LoraConfig\<close>, with the field \<^verbatim>\<open>inference_mode\<close> of its base class. The selector
  \<^verbatim>\<open>target_modules\<close> is a regular expression (a \<^verbatim>\<open>str\<close>), a list of suffixes, or
  \<^verbatim>\<open>None\<close> (the default). The fields that share a name with an attribute of the layer carry
  the suffix \<open>_cfg\<close>.
\<close>

datatype target_selector = Pattern string | Suffixes "string list"

record LoraConfig =
  r_cfg :: int
  target_modules :: "target_selector option"
  lora_alpha_cfg :: "real option"
  lora_dropout_cfg :: "real option"
  merge_weights_cfg :: bool
  fan_in_fan_out_cfg :: bool
  enable_lora :: "bool list option"
  bias_cfg :: string
  lora_router_cfg :: bool
  lora_router_mixer_cfg :: bool
  inference_mode :: bool

definition LoraConfig_defaults :: LoraConfig where
  "LoraConfig_defaults =
     \<lparr> r_cfg = 8, target_modules = None, lora_alpha_cfg = None, lora_dropout_cfg = None,
       merge_weights_cfg = False, fan_in_fan_out_cfg = False, enable_lora = None,
       bias_cfg = ''none'', lora_router_cfg = False, lora_router_mixer_cfg = False,
       inference_mode = False \<rparr>"

text \<open>
  The host network with the two attributes \<^verbatim>\<open>_find_and_replace\<close> reads from it, and the
  environment: whether \<^verbatim>\<open>bitsandbytes\<close> can be imported, and \<^verbatim>\<open>re.fullmatch\<close> (pattern,
  then key), which is not part of the sources and may raise on a malformed pattern.
\<close>

record host_model =
  module_tree :: module
  is_loaded_in_8bit :: bool
  has_hf_device_map :: bool

record environment =
  bnb_available :: bool
  re_fullmatch :: "string \<Rightarrow> string \<Rightarrow> error + bool"

text \<open>\<^verbatim>\<open>key.split(".")\<close> and \<^verbatim>\<open>".".join(parts)\<close>\<close>

fun split_dot :: "string \<Rightarrow> string list" where
  "split_dot [] = [[]]"
| "split_dot (c # cs) =
     (if c = CHR ''.'' then [] # split_dot cs
      else (case split_dot cs of [] \<Rightarrow> [[c]] | p # ps \<Rightarrow> (c # p) # ps))"

fun join_dot :: "string list \<Rightarrow> string" where
  "join_dot [] = []"
| "join_dot [p] = p"
| "join_dot (p # ps) = p @ ''.'' @ join_dot ps"

text \<open>\<^verbatim>\<open>nn.Module.get_submodule\<close>: the empty path is the module itself.\<close>

fun walk :: "module \<Rightarrow> string list \<Rightarrow> error + module" where
  "walk m [] = Inr m"
| "walk m (a # rest) =
     (case map_of (children m) a of
        None \<Rightarrow> Inl (AttributeError a)
      | Some c \<Rightarrow> walk c rest)"

definition get_submodule :: "module \<Rightarrow> string \<Rightarrow> error + module" where
  "get_submodule m target = (if target = [] then Inr m else walk m (split_dot target))"

text \<open>
  \<^verbatim>\<open>setattr(parent, child_name, new_module)\<close> for the parent at a dotted path of the tree.
  Replacing a sub-layer of an adapter layer (a key such as \<^verbatim>\<open>q.lora_A\<close> in a network that
  already holds adapter layers) cannot be written into the layer record; the model reports it
  as an error of its own.
\<close>

fun update_child :: "module \<Rightarrow> string \<Rightarrow> module \<Rightarrow> error + module" where
  "update_child (Plain k ps cs) name new = Inr (Plain k ps (AList.update name new cs))"
| "update_child (LoraLinear L) name new =
     Inl (RuntimeError ''a sub-layer of an adapter layer is replaced: outside the model'')"

fun update_at :: "module \<Rightarrow> string list \<Rightarrow> string \<Rightarrow> module \<Rightarrow> error + module" where
  "update_at m [] name new = update_child m name new"
| "update_at m (a # rest) name new =
     (case map_of (children m) a of
        None \<Rightarrow> Inl (AttributeError a)
      | Some c \<Rightarrow> bind_err (update_at c rest name new) (\<lambda>c'. update_child m a c'))"

definition set_submodule :: "module \<Rightarrow> string \<Rightarrow> string \<Rightarrow> module \<Rightarrow> error + module" where
  "set_submodule m parent_path name new =
     update_at m (if parent_path = [] then [] else split_dot parent_path) name new"

text \<open>
  What \<^verbatim>\<open>_find_and_replace\<close> reads from a target: \<^verbatim>\<open>target.bias is not None\<close>, the
  \<^verbatim>\<open>isinstance\<close> tests, \<^verbatim>\<open>in_features\<close> and \<^verbatim>\<open>out_features\<close>, and in
  \<^verbatim>\<open>_replace_module\<close> the old weight and bias.
\<close>

fun has_bias :: "module \<Rightarrow> error + bool" where
  "has_bias (LoraLinear L) = Inr (bias L \<noteq> None)"
| "has_bias (Plain k ps cs) =
     (case map_of ps ''bias'' of
        Some v \<Rightarrow> Inr (v \<noteq> None)
      | None \<Rightarrow>
          (case map_of cs ''bias'' of
             Some c \<Rightarrow> Inr True
           | None \<Rightarrow> Inl (AttributeError ''bias'')))"

fun is_nn_Linear :: "module \<Rightarrow> bool" where
  "is_nn_Linear (LoraLinear L) = True"
| "is_nn_Linear (Plain (TorchLinear i j) ps cs) = True"
| "is_nn_Linear (Plain (Linear8bitLt i j) ps cs) = True"
| "is_nn_Linear (Plain k ps cs) = False"

fun is_Linear8bitLt :: "module \<Rightarrow> bool" where
  "is_Linear8bitLt (Plain (Linear8bitLt i j) ps cs) = True"
| "is_Linear8bitLt m = False"

fun is_Conv1D :: "module \<Rightarrow> bool" where
  "is_Conv1D (Plain Conv1D ps cs) = True"
| "is_Conv1D m = False"

fun features :: "module \<Rightarrow> (nat \<times> nat) option" where
  "features (LoraLinear L) = Some (in_features L, out_features L)"
| "features (Plain (TorchLinear i j) ps cs) = Some (i, j)"
| "features (Plain (Linear8bitLt i j) ps cs) = Some (i, j)"
| "features (Plain k ps cs) = None"

fun old_weight :: "module \<Rightarrow> error + param" where
  "old_weight (LoraLinear L) = Inr (weight L)"
| "old_weight (Plain k ps cs) =
     (case map_of ps ''weight'' of
        Some (Some p) \<Rightarrow> Inr p
      | _ \<Rightarrow> Inl (AttributeError ''weight''))"

fun old_bias :: "module \<Rightarrow> error + param option" where
  "old_bias (LoraLinear L) = Inr (bias L)"
| "old_bias (Plain k ps cs) =
     (case map_of ps ''bias'' of
        Some v \<Rightarrow> Inr v
      | None \<Rightarrow> Inl (TypeError ''cannot assign a module as parameter bias''))"

text \<open>
  The branches of \<^verbatim>\<open>_find_and_replace\<close> that construct \<^verbatim>\<open>new_module\<close>. The 8-bit
  classes and \<^verbatim>\<open>MergedLinear\<close> raise \<^verbatim>\<open>NotImplementedError\<close> from their constructors. When
  no branch applies (the target is not a linear layer and \<^verbatim>\<open>enable_lora\<close> is \<^verbatim>\<open>None\<close>),
  \<^verbatim>\<open>new_module\<close> is unbound in the first such iteration; later it still holds the layer of
  the previous replacement, and the source puts that very object under a second name, so
  that the assignments of \<^verbatim>\<open>_replace_module\<close> to its weight and bias change it under both
  names. A tree has no shared nodes: this case is not part of the model, which reports it as
  an error of its own.
\<close>

definition make_new_module ::
  "init_source \<Rightarrow> LoraConfig \<Rightarrow> host_model \<Rightarrow> module \<Rightarrow> bool \<Rightarrow> Linear option \<Rightarrow> error + Linear" where
  "make_new_module src cfg h target use_bias new_module =
     (if is_loaded_in_8bit h \<and> is_Linear8bitLt target
      then Inl (NotImplementedError [])
      else if is_nn_Linear target \<and> enable_lora cfg = None
      then (case features target of
              None \<Rightarrow> Inl (AttributeError ''in_features'')
            | Some (i, j) \<Rightarrow>
                Linear_init src i j use_bias (r_cfg cfg) (lora_alpha_cfg cfg) (lora_dropout_cfg cfg)
                  (fan_in_fan_out_cfg cfg)
                  ((merge_weights_cfg cfg \<or> inference_mode cfg) \<and> \<not> has_hf_device_map h)
                  (lora_router_cfg cfg) (lora_router_mixer_cfg cfg))
      else if enable_lora cfg \<noteq> None
      then (if is_Conv1D target \<or> features target \<noteq> None
            then Inl (NotImplementedError ''MergedLinear is not implemented yet'')
            else Inl (AttributeError ''in_features''))
      else (case new_module of
              None \<Rightarrow> Inl (UnboundLocalError ''new_module'')
            | Some nm \<Rightarrow>
                Inl (RuntimeError ''one adapter layer is put under two names: outside the model'')))"

text \<open>
  One matched key: \<^verbatim>\<open>_get_submodules\<close>, the construction of the new module, and
  \<^verbatim>\<open>_replace_module\<close> (the new module is put in place, then takes the old weight and the
  old bias). The moves between devices change no value.
\<close>

definition replace_step ::
  "(string \<Rightarrow> init_source) \<Rightarrow> LoraConfig \<Rightarrow> host_model \<Rightarrow> string \<Rightarrow> module \<Rightarrow> Linear option
     \<Rightarrow> (error \<times> module) + (module \<times> Linear option)" where
  "replace_step src cfg h key tree new_module =
     (case get_submodule tree (join_dot (butlast (split_dot key))) of
        Inl e \<Rightarrow> Inl (e, tree)
      | Inr parent \<Rightarrow>
     (case get_submodule tree key of
        Inl e \<Rightarrow> Inl (e, tree)
      | Inr target \<Rightarrow>
     (case has_bias target of
        Inl e \<Rightarrow> Inl (e, tree)
      | Inr use_bias \<Rightarrow>
     (case make_new_module (src key) cfg h target use_bias new_module of
        Inl e \<Rightarrow> Inl (e, tree)
      | Inr nm \<Rightarrow>
     (case set_submodule tree (join_dot (butlast (split_dot key))) (last (split_dot key))
             (LoraLinear nm) of
        Inl e \<Rightarrow> Inl (e, tree)
      | Inr tree1 \<Rightarrow>
     (case old_weight target of
        Inl e \<Rightarrow> Inl (e, tree1)
      | Inr w \<Rightarrow>
     (case old_bias target of
        Inl e \<Rightarrow>
          Inl (e, case set_submodule tree (join_dot (butlast (split_dot key)))
                         (last (split_dot key)) (LoraLinear (nm\<lparr>weight := w\<rparr>)) of
                    Inl e' \<Rightarrow> tree1 | Inr tree2 \<Rightarrow> tree2)
      | Inr b \<Rightarrow>
     (case set_submodule tree (join_dot (butlast (split_dot key))) (last (split_dot key))
             (LoraLinear (nm\<lparr>weight := w, bias := (case b of None \<Rightarrow> bias nm | Some p \<Rightarrow> Some p)\<rparr>)) of
        Inl e \<Rightarrow> Inl (e, tree1)
      | Inr tree2 \<Rightarrow>
          Inr (tree2,
               Some (nm\<lparr>weight := w, bias := (case b of None \<Rightarrow> bias nm | Some p \<Rightarrow> Some p)\<rparr>))))))))))"

text \<open>
  The match of one key: \<^verbatim>\<open>re.fullmatch\<close> for a pattern, \<^verbatim>\<open>any(key.endswith(t) ...)\<close> for
  a list; iterating over \<^verbatim>\<open>None\<close> raises \<^verbatim>\<open>TypeError\<close>.
\<close>

definition target_module_found :: "environment \<Rightarrow> LoraConfig \<Rightarrow> string \<Rightarrow> error + bool" where
  "target_module_found env cfg key =
     (case target_modules cfg of
        Some (Pattern pat) \<Rightarrow> re_fullmatch env pat key
      | Some (Suffixes ts) \<Rightarrow> Inr (list_ex (\<lambda>target_key. suffix target_key key) ts)
      | None \<Rightarrow> Inl (TypeError ''NoneType object is not iterable''))"

text \<open>
  The loop over \<^verbatim>\<open>key_list\<close>. Its state is the tree, the flag
  \<^verbatim>\<open>is_target_modules_in_base_model\<close> and the variable \<^verbatim>\<open>new_module\<close>.
\<close>

fun replace_loop ::
  "environment \<Rightarrow> (string \<Rightarrow> init_source) \<Rightarrow> LoraConfig \<Rightarrow> host_model \<Rightarrow> string list
     \<Rightarrow> module \<times> bool \<times> Linear option \<Rightarrow> (error \<times> module) + (module \<times> bool \<times> Linear option)" where
  "replace_loop env src cfg h [] st = Inr st"
| "replace_loop env src cfg h (key # keys) (tree, is_target_modules_in_base_model, new_module) =
     (case target_module_found env cfg key of
        Inl e \<Rightarrow> Inl (e, tree)
      | Inr False \<Rightarrow>
          replace_loop env src cfg h keys (tree, is_target_modules_in_base_model, new_module)
      | Inr True \<Rightarrow>
          (case replace_step src cfg h key tree new_module of
             Inl et \<Rightarrow> Inl et
           | Inr (tree', new_module') \<Rightarrow>
               replace_loop env src cfg h keys (tree', True, new_module')))"

text \<open>
  The message of the \<^verbatim>\<open>ValueError\<close>, an f-string that formats the selector: a pattern as
  it is (\<^verbatim>\<open>str\<close> of a string), a list as \<^verbatim>\<open>['q', 'v']\<close>, each entry by \<^verbatim>\<open>repr\<close>.
  \<^verbatim>\<open>repr\<close> of a string puts it between single quotes, or between double quotes when it
  holds a single quote and no double quote; it escapes the backslash and the enclosing quote
  with a backslash, writes tab, line feed and carriage return as a backslash and the letter
  t, n or r, and every other character that is not printable as a backslash, the letter x
  and two lower-case hexadecimal digits. A character of the model is the code point of its
  number, below 256; of these the printable ones are 0x20 to 0x7e and 0xa1 to 0xff without
  0xad.
\<close>

definition hex_digit :: "nat \<Rightarrow> char" where
  "hex_digit n = ''0123456789abcdef'' ! n"

definition printable :: "char \<Rightarrow> bool" where
  "printable c =
     (let n = (of_char c :: nat)
      in (0x20 \<le> n \<and> n < 0x7f) \<or> (0xa1 \<le> n \<and> n < 0xad) \<or> 0xae \<le> n)"

definition escape_char :: "char \<Rightarrow> char \<Rightarrow> string" where
  "escape_char q c =
     (if c = q \<or> c = CHR 0x5C then [CHR 0x5C, c]
      else if c = CHR 0x09 then [CHR 0x5C, CHR ''t'']
      else if c = CHR 0x0A then [CHR 0x5C, CHR ''n'']
      else if c = CHR 0x0D then [CHR 0x5C, CHR ''r'']
      else if printable c then [c]
      else [CHR 0x5C, CHR ''x'', hex_digit (of_char c div 16), hex_digit (of_char c mod 16)])"

definition repr_str :: "string \<Rightarrow> string" where
  "repr_str str =
     (let q = (if CHR 0x22 \<in> set str then CHR 0x27
               else if CHR 0x27 \<in> set str then CHR 0x22
               else CHR 0x27)
      in [q] @ concat (map (escape_char q) str) @ [q])"

fun comma_sep :: "string list \<Rightarrow> string" where
  "comma_sep [] = []"
| "comma_sep [p] = p"
| "comma_sep (p # ps) = p @ '', '' @ comma_sep ps"

fun show_selector :: "target_selector option \<Rightarrow> string" where
  "show_selector None = ''None''"
| "show_selector (Some (Pattern pat)) = pat"
| "show_selector (Some (Suffixes ts)) = ''['' @ comma_sep (map repr_str ts) @ '']''"

definition not_found_message :: "target_selector option \<Rightarrow> string" where
  "not_found_message sel =
     ''Target modules '' @ show_selector sel
       @ '' not found in the base model. Please check the target modules and try again.''"

text \<open>\<^verbatim>\<open>LoraModel._find_and_replace\<close> and \<^verbatim>\<open>LoraModel.__init__\<close>\<close>

definition find_and_replace ::
  "environment \<Rightarrow> (string \<Rightarrow> init_source) \<Rightarrow> LoraConfig \<Rightarrow> host_model
     \<Rightarrow> (error \<times> module) + module" where
  "find_and_replace env src cfg h =
     (if is_loaded_in_8bit h \<and> \<not> bnb_available env
      then Inl (ImportError ''To use Lora with 8-bit quantization, please install the bitsandbytes package.'',
                module_tree h)
      else
        case replace_loop env src cfg h (map fst (named_modules [] (module_tree h)))
               (module_tree h, False, None) of
          Inl et \<Rightarrow> Inl et
        | Inr (tree, is_target_modules_in_base_model, new_module) \<Rightarrow>
            if \<not> is_target_modules_in_base_model
            then Inl (ValueError (not_found_message (target_modules cfg)), tree)
            else Inr tree)"

definition LoraModel_init ::
  "environment \<Rightarrow> (string \<Rightarrow> init_source) \<Rightarrow> LoraConfig \<Rightarrow> host_model
     \<Rightarrow> (error \<times> module) + module" where
  "LoraModel_init env src cfg h =
     (case find_and_replace env src cfg h of
        Inl et \<Rightarrow> Inl et
      | Inr tree \<Rightarrow> mark_only_lora_as_trainable tree (bias_cfg cfg))"


section \<open>Facts about the network operations\<close>

lemma replace_loop_no_match:
  "\<forall>key \<in> set keys. target_module_found env cfg key = Inr False \<Longrightarrow>
     replace_loop env src cfg h keys st = Inr st"
proof (induction keys arbitrary: st)
  case Nil
  then show ?case by simp
next
  case (Cons key keys)
  obtain tree found nm where st: "st = (tree, found, nm)" by (cases st) auto
  show ?case using Cons by (simp add: st)
qed

lemma find_and_replace_no_match:
  assumes "\<forall>key \<in> set (map fst (named_modules [] (module_tree h))).
             target_module_found env cfg key = Inr False"
  shows "find_and_replace env src cfg h
       = Inl (if is_loaded_in_8bit h \<and> \<not> bnb_available env
              then ImportError ''To use Lora with 8-bit quantization, please install the bitsandbytes package.''
              else ValueError (not_found_message (target_modules cfg)),
              module_tree h)"
  using replace_loop_no_match [OF assms, of src h "(module_tree h, False, None)"]
  by (simp add: find_and_replace_def)

lemma set_adapter_layers_idem:
  "set_adapter_layers e (set_adapter_layers e m) = set_adapter_layers e m"
  by (induction m) (auto simp: snds.simps)

lemma adapter_layers_set_adapter_layers:
  "adapter_layers (set_adapter_layers e m)
   = map (\<lambda>L. L\<lparr>disable_adapters := \<not> e\<rparr>) (adapter_layers m)"
proof (induction m)
  case (LoraLinear L)
  show ?case by simp
next
  case (Plain k ps cs)
  have eq: "map (\<lambda>nc. adapter_layers (set_adapter_layers e (snd nc))) cs
      = map (\<lambda>nc. map (\<lambda>L. L\<lparr>disable_adapters := \<not> e\<rparr>) (adapter_layers (snd nc))) cs"
    using Plain.IH by (intro map_cong refl) (auto simp: snds.simps)
  have "adapter_layers (set_adapter_layers e (Plain k ps cs))
      = concat (map (\<lambda>nc. adapter_layers (set_adapter_layers e (snd nc))) cs)"
    by (simp add: comp_def)
  also have "\<dots> = concat (map (\<lambda>nc. map (\<lambda>L. L\<lparr>disable_adapters := \<not> e\<rparr>)
                                   (adapter_layers (snd nc))) cs)"
    by (simp only: eq)
  also have "\<dots> = map (\<lambda>L. L\<lparr>disable_adapters := \<not> e\<rparr>) (adapter_layers (Plain k ps cs))"
    by (simp add: map_concat comp_def)
  finally show ?case .
qed

lemma forward_disabled:
  "disable_adapters self \<Longrightarrow>
     forward self keep x
       = Inl (NotImplementedError ''Disabling adapters is not supported for LoraLayer yet'')"
  by (simp add: forward_def)


text \<open>The named parameters one module contributes.\<close>

definition own_entries :: "string \<Rightarrow> (string \<times> param option) list \<Rightarrow> (string \<times> param) list" where
  "own_entries pfx ps =
     concat (map (\<lambda>kv. case snd kv of None \<Rightarrow> [] | Some p \<Rightarrow> [(join_name pfx (fst kv), p)]) ps)"

lemma concat_map_concat_map:
  "concat (map G (concat (map H cs))) = concat (map (\<lambda>c. concat (map G (H c))) cs)"
  by (induction cs) simp_all

lemma named_parameters_of_Plain:
  "named_parameters_of pfx (Plain k ps cs)
   = own_entries pfx ps
     @ concat (map (\<lambda>nc. named_parameters_of (join_name pfx (fst nc)) (snd nc)) cs)"
  by (simp add: named_parameters_of_def own_entries_def concat_map_concat_map
      cong: option.case_cong)

lemma named_parameters_of_LoraLinear:
  "named_parameters_of pfx (LoraLinear L)
   = own_entries pfx [(''weight'', Some (weight L)), (''bias'', bias L)]
     @ own_entries (join_name pfx ''lora_A'') [(''weight'', lora_A L)]
     @ own_entries (join_name pfx ''lora_R'') [(''weight'', lora_R L)]
     @ own_entries (join_name pfx ''lora_B'') [(''weight'', lora_B L)]"
  by (simp add: named_parameters_of_def own_entries_def lora_children_def sub_linear_def
      split: option.splits dropout.splits)

lemma own_entries_map:
  "own_entries pfx (map (\<lambda>kv. (fst kv, map_option (f (join_name pfx (fst kv))) (snd kv))) ps)
   = map (\<lambda>np. (fst np, f (fst np) (snd np))) (own_entries pfx ps)"
  by (induction ps) (auto simp: own_entries_def split: option.splits)

lemma named_parameters_of_map_parameters:
  "named_parameters_of pfx (map_parameters f pfx m)
   = map (\<lambda>np. (fst np, f (fst np) (snd np))) (named_parameters_of pfx m)"
proof (induction m arbitrary: pfx)
  case (LoraLinear L)
  show ?case
    by (simp add: named_parameters_of_LoraLinear own_entries_def split: option.splits)
next
  case (Plain k ps cs)
  have eq: "map (\<lambda>nc. named_parameters_of (join_name pfx (fst nc))
                    (map_parameters f (join_name pfx (fst nc)) (snd nc))) cs
      = map (\<lambda>nc. map (\<lambda>np. (fst np, f (fst np) (snd np)))
                    (named_parameters_of (join_name pfx (fst nc)) (snd nc))) cs"
    using Plain.IH by (intro map_cong refl) (auto simp: snds.simps)
  have "named_parameters_of pfx (map_parameters f pfx (Plain k ps cs))
      = own_entries pfx (map (\<lambda>kv. (fst kv, map_option (f (join_name pfx (fst kv))) (snd kv))) ps)
        @ concat (map (\<lambda>nc. named_parameters_of (join_name pfx (fst nc))
                    (map_parameters f (join_name pfx (fst nc)) (snd nc))) cs)"
    by (simp add: named_parameters_of_Plain comp_def)
  also have "\<dots> = map (\<lambda>np. (fst np, f (fst np) (snd np))) (own_entries pfx ps)
        @ concat (map (\<lambda>nc. map (\<lambda>np. (fst np, f (fst np) (snd np)))
                    (named_parameters_of (join_name pfx (fst nc)) (snd nc))) cs)"
    by (simp only: eq own_entries_map)
  also have "\<dots> = map (\<lambda>np. (fst np, f (fst np) (snd np))) (named_parameters_of pfx (Plain k ps cs))"
    by (simp add: named_parameters_of_Plain map_concat comp_def)
  finally show ?case .
qed

section \<open>The trainable mask\<close>

text \<open>
  C6. For every network whose parameters are all trainable, the mask pass with bias mode
  \<^verbatim>\<open>none\<close> returns, keeps the names of the parameters, and leaves a parameter trainable if
  and only if its name contains \<^verbatim>\<open>lora_\<close>.
\<close>

theorem mask_none_trains_exactly_lora:
  assumes "\<forall>np \<in> set (named_parameters model). requires_grad (snd np)"
  shows "\<exists>model'. mark_only_lora_as_trainable model ''none'' = Inr model'
           \<and> map fst (named_parameters model') = map fst (named_parameters model)
           \<and> (\<forall>np \<in> set (named_parameters model').
                 requires_grad (snd np) = sublist ''lora_'' (fst np))"
proof -
  define f where "f = (\<lambda>n (p::param). if sublist ''lora_'' n then p else p\<lparr>requires_grad := False\<rparr>)"
  have np: "named_parameters (map_parameters f [] model)
      = map (\<lambda>np. (fst np, f (fst np) (snd np))) (named_parameters model)"
    by (simp add: named_parameters_def named_parameters_of_map_parameters)
  have m: "mark_only_lora_as_trainable model ''none'' = Inr (map_parameters f [] model)"
    by (simp add: mark_only_lora_as_trainable_def f_def)
  have "\<forall>np \<in> set (named_parameters (map_parameters f [] model)).
           requires_grad (snd np) = sublist ''lora_'' (fst np)"
    unfolding np using assms by (auto simp: f_def)
  moreover have "map fst (named_parameters (map_parameters f [] model))
      = map fst (named_parameters model)"
    by (simp add: np comp_def)
  ultimately show ?thesis using m by blast
qed

section \<open>An example network\<close>

text \<open>
  A host with a dense layer \<^verbatim>\<open>q\<close> (4 to 4, with bias) and a module \<^verbatim>\<open>norm\<close> with one
  parameter; the environment has no \<^verbatim>\<open>bitsandbytes\<close>, and its pattern match is equality
  of pattern and key. Adapting the host with the selector \<^verbatim>\<open>['q']\<close> gives \<open>adapted_tree\<close>.
\<close>

definition example_tree :: module where
  "example_tree =
     Plain OtherModule []
       [(''q'', Plain (TorchLinear 4 4)
                 [(''weight'', Some \<lparr>data = fill [4, 4] (\<lambda>i. 1), requires_grad = True\<rparr>),
                  (''bias'', Some \<lparr>data = fill [4] (\<lambda>i. 0), requires_grad = True\<rparr>)] []),
        (''norm'', Plain OtherModule
                 [(''weight'', Some \<lparr>data = fill [4] (\<lambda>i. 1), requires_grad = True\<rparr>)] [])]"

definition example_host :: host_model where
  "example_host = \<lparr>module_tree = example_tree, is_loaded_in_8bit = False, has_hf_device_map = False\<rparr>"

definition example_env :: environment where
  "example_env = \<lparr>bnb_available = False, re_fullmatch = (\<lambda>pat key. Inr (pat = key))\<rparr>"

definition example_config :: LoraConfig where
  "example_config =
     LoraConfig_defaults\<lparr>r_cfg := 1, target_modules := Some (Suffixes [''q'']),
       lora_alpha_cfg := Some 2, lora_dropout_cfg := Some 0, merge_weights_cfg := True,
       lora_router_cfg := True\<rparr>"

definition adapted_tree :: module where
  "adapted_tree =
     Plain OtherModule []
       [(''q'', LoraLinear
                 (example_layer
                    \<lparr>weight := \<lparr>data = fill [4, 4] (\<lambda>i. 1), requires_grad = True\<rparr>,
                      bias := Some \<lparr>data = fill [4] (\<lambda>i. 0), requires_grad = True\<rparr>\<rparr>)),
        (''norm'', Plain OtherModule
                 [(''weight'', Some \<lparr>data = fill [4] (\<lambda>i. 1), requires_grad = True\<rparr>)] [])]"

lemma example_keys:
  "map fst (named_modules [] example_tree) = [[], ''q'', ''norm'']"
  by (simp add: example_tree_def join_name_def)

lemma example_adaptation:
  "find_and_replace example_env (\<lambda>key. example_source) example_config example_host = Inr adapted_tree"
  by (simp add: find_and_replace_def example_host_def example_env_def join_name_def
      target_module_found_def example_config_def LoraConfig_defaults_def suffix_Cons
      replace_step_def get_submodule_def example_tree_def make_new_module_def
      set_submodule_def adapted_tree_def example_layer_def Linear_init_def LoraLayer_init_def)

lemma adapted_parameters:
  "map (\<lambda>np. (fst np, requires_grad (snd np))) (named_parameters adapted_tree)
   = [(''q.weight'', True), (''q.bias'', True), (''q.lora_A.weight'', True),
      (''q.lora_R.weight'', True), (''q.lora_B.weight'', True), (''norm.weight'', True)]"
  by (simp add: named_parameters_def named_parameters_of_def adapted_tree_def join_name_def
      lora_children_def sub_linear_def example_layer_def Linear_init_def LoraLayer_init_def)

definition unmatched_config :: LoraConfig where
  "unmatched_config = example_config\<lparr>target_modules := Some (Suffixes [''v_proj''])\<rparr>"

lemma unmatched_config_matches_nothing:
  "map (target_module_found example_env unmatched_config) (map fst (named_modules [] example_tree))
   = [Inr False, Inr False, Inr False]"
  by (simp add: example_tree_def join_name_def target_module_found_def unmatched_config_def
      example_config_def LoraConfig_defaults_def suffix_Cons)

theorem mask_none_trains_exactly_lora_witness:
  "map (\<lambda>np. (fst np, requires_grad (snd np))) (named_parameters adapted_tree)
     = [(''q.weight'', True), (''q.bias'', True), (''q.lora_A.weight'', True),
        (''q.lora_R.weight'', True), (''q.lora_B.weight'', True), (''norm.weight'', True)]
   \<and> (\<exists>model'. mark_only_lora_as_trainable adapted_tree ''none'' = Inr model'
           \<and> map fst (named_parameters model') = map fst (named_parameters adapted_tree)
           \<and> (\<forall>np \<in> set (named_parameters model').
                 requires_grad (snd np) = sublist ''lora_'' (fst np)))"
proof -
  have "list_all (\<lambda>p. snd p) (map (\<lambda>np. (fst np, requires_grad (snd np))) (named_parameters adapted_tree))"
    by (simp only: adapted_parameters) simp
  then have h: "\<forall>np \<in> set (named_parameters adapted_tree). requires_grad (snd np)"
    by (simp add: list_all_iff)
  show ?thesis
    using mask_none_trains_exactly_lora [OF h] adapted_parameters by simp
qed

section \<open>A selector that matches nothing\<close>

text \<open>
  The claim C5 says that every host and config whose selector matches no module name makes the
  construction raise the configuration error. On a host marked as loaded in 8 bit, without
  \<^verbatim>\<open>bitsandbytes\<close>, the construction raises \<^verbatim>\<open>ImportError\<close> instead, before any key is
  looked at.
\<close>

theorem unmatched_selector_with_8bit_flag:
  "map (target_module_found example_env unmatched_config) (map fst (named_modules [] example_tree))
     = [Inr False, Inr False, Inr False]
   \<and> LoraModel_init example_env (\<lambda>key. example_source) unmatched_config
         (example_host\<lparr>is_loaded_in_8bit := True\<rparr>)
     = Inl (ImportError ''To use Lora with 8-bit quantization, please install the bitsandbytes package.'',
            example_tree)"
  using unmatched_config_matches_nothing
  by (simp add: LoraModel_init_def find_and_replace_def example_host_def example_env_def)

text \<open>
  C5, amended. For every host and config whose selector matches no module name of the host,
  unless the host is marked as loaded in 8 bit while \<^verbatim>\<open>bitsandbytes\<close> is unavailable,
  constructing the adapted model raises \<^verbatim>\<open>ValueError\<close> with a message that names the
  selector, and the module tree is the one the host had.
\<close>

theorem unmatched_selector_raises:
  assumes "\<forall>key \<in> set (map fst (named_modules [] (module_tree h))).
             target_module_found env cfg key = Inr False"
    and "\<not> (is_loaded_in_8bit h \<and> \<not> bnb_available env)"
  shows "LoraModel_init env src cfg h
           = Inl (ValueError (not_found_message (target_modules cfg)), module_tree h)
       \<and> sublist (show_selector (target_modules cfg)) (not_found_message (target_modules cfg))"
proof -
  have "sublist (show_selector (target_modules cfg)) (not_found_message (target_modules cfg))"
    unfolding not_found_message_def sublist_def by blast
  then show ?thesis
    using find_and_replace_no_match [OF assms(1), of src] assms(2)
    by (simp add: LoraModel_init_def)
qed

theorem unmatched_selector_raises_witness:
  "list_all (\<lambda>key. target_module_found example_env unmatched_config key = Inr False)
     (map fst (named_modules [] (module_tree example_host)))
   \<and> \<not> (is_loaded_in_8bit example_host \<and> \<not> bnb_available example_env)
   \<and> LoraModel_init example_env (\<lambda>key. example_source) unmatched_config example_host
       = Inl (ValueError
                ''Target modules ['v_proj'] not found in the base model. Please check the target modules and try again.'',
              example_tree)"
proof -
  have h1: "\<forall>key \<in> set (map fst (named_modules [] (module_tree example_host))).
              target_module_found example_env unmatched_config key = Inr False"
    by (simp add: example_host_def example_tree_def join_name_def target_module_found_def
        unmatched_config_def example_config_def LoraConfig_defaults_def suffix_Cons)
  have h2: "\<not> (is_loaded_in_8bit example_host \<and> \<not> bnb_available example_env)"
    by (simp add: example_host_def)
  have sel: "target_modules unmatched_config = Some (Suffixes [''v_proj''])"
    by (simp add: unmatched_config_def)
  show ?thesis
    using unmatched_selector_raises [OF h1 h2, of "\<lambda>key. example_source"] h1 h2
    by (simp add: sel not_found_message_def repr_str_def escape_char_def printable_def Let_def
          list_all_iff example_host_def)
qed

section \<open>Disabling the adapters\<close>

text \<open>
  C7. \<^verbatim>\<open>disable_adapter_layers\<close> is idempotent; it sets the flag \<^verbatim>\<open>disable_adapters\<close> on
  every adapter layer of the network and changes nothing else of them; and a layer whose flag
  is set raises \<^verbatim>\<open>NotImplementedError\<close> from every call of forward, whatever the input.
\<close>

theorem disable_adapter_layers_sets_flag:
  "disable_adapter_layers (disable_adapter_layers model) = disable_adapter_layers model
   \<and> adapter_layers (disable_adapter_layers model)
       = map (\<lambda>L. L\<lparr>disable_adapters := True\<rparr>) (adapter_layers model)
   \<and> (\<forall>L \<in> set (adapter_layers (disable_adapter_layers model)). disable_adapters L)
   \<and> (disable_adapters self \<longrightarrow>
        forward self keep x
          = Inl (NotImplementedError ''Disabling adapters is not supported for LoraLayer yet''))"
  by (simp add: disable_adapter_layers_def set_adapter_layers_idem
      adapter_layers_set_adapter_layers forward_disabled)

theorem disable_adapter_layers_sets_flag_witness:
  "adapter_layers (disable_adapter_layers adapted_tree)
     = map (\<lambda>L. L\<lparr>disable_adapters := True\<rparr>) (adapter_layers adapted_tree)
   \<and> adapter_layers adapted_tree \<noteq> []
   \<and> disable_adapters (hd (adapter_layers (disable_adapter_layers adapted_tree)))
   \<and> forward (hd (adapter_layers (disable_adapter_layers adapted_tree))) (\<lambda>i. True)
        (Tensor [1, 1, 4] [1, 2, 3, 4])
       = Inl (NotImplementedError ''Disabling adapters is not supported for LoraLayer yet'')"
proof -
  have ne: "adapter_layers adapted_tree \<noteq> []"
    by (simp add: adapted_tree_def)
  have d: "disable_adapters (hd (adapter_layers (disable_adapter_layers adapted_tree)))"
    by (simp add: adapted_tree_def disable_adapter_layers_def)
  note t = disable_adapter_layers_sets_flag
      [of adapted_tree "hd (adapter_layers (disable_adapter_layers adapted_tree))"
          "\<lambda>i. True" "Tensor [1, 1, 4] [1, 2, 3, 4]"]
  from t have a: "adapter_layers (disable_adapter_layers adapted_tree)
     = map (\<lambda>L. L\<lparr>disable_adapters := True\<rparr>) (adapter_layers adapted_tree)"
    by blast
  from t d have f: "forward (hd (adapter_layers (disable_adapter_layers adapted_tree))) (\<lambda>i. True)
        (Tensor [1, 1, 4] [1, 2, 3, 4])
       = Inl (NotImplementedError ''Disabling adapters is not supported for LoraLayer yet'')"
    by blast
  from a ne d f show ?thesis by blast
qed

section \<open>The trainable mask with bias mode all\<close>

text \<open>
  X3. With bias mode \<^verbatim>\<open>all\<close> the mask pass returns, keeps the names of the parameters,
  leaves every parameter whose name contains \<^verbatim>\<open>bias\<close> trainable, and freezes every
  parameter whose name contains neither \<^verbatim>\<open>bias\<close> nor \<^verbatim>\<open>lora_\<close>.
\<close>

theorem mask_all_trains_bias_and_lora:
  "\<exists>model'. mark_only_lora_as_trainable model ''all'' = Inr model'
     \<and> map fst (named_parameters model') = map fst (named_parameters model)
     \<and> (\<forall>np \<in> set (named_parameters model').
           (sublist ''bias'' (fst np) \<longrightarrow> requires_grad (snd np))
           \<and> (\<not> sublist ''bias'' (fst np) \<and> \<not> sublist ''lora_'' (fst np)
                \<longrightarrow> \<not> requires_grad (snd np)))"
proof -
  define f where "f = (\<lambda>n (p::param). if sublist ''lora_'' n then p else p\<lparr>requires_grad := False\<rparr>)"
  define g where "g = (\<lambda>n (p::param). if sublist ''bias'' n then p\<lparr>requires_grad := True\<rparr> else p)"
  have np: "named_parameters (map_parameters g [] (map_parameters f [] model))
      = map (\<lambda>np. (fst np, g (fst np) (f (fst np) (snd np)))) (named_parameters model)"
    by (simp add: named_parameters_def named_parameters_of_map_parameters comp_def)
  have m: "mark_only_lora_as_trainable model ''all''
      = Inr (map_parameters g [] (map_parameters f [] model))"
    by (simp add: mark_only_lora_as_trainable_def f_def g_def)
  have "\<forall>np \<in> set (named_parameters (map_parameters g [] (map_parameters f [] model))).
           (sublist ''bias'' (fst np) \<longrightarrow> requires_grad (snd np))
           \<and> (\<not> sublist ''bias'' (fst np) \<and> \<not> sublist ''lora_'' (fst np)
                \<longrightarrow> \<not> requires_grad (snd np))"
    unfolding np by (auto simp: f_def g_def)
  moreover have "map fst (named_parameters (map_parameters g [] (map_parameters f [] model)))
      = map fst (named_parameters model)"
    by (simp add: np comp_def)
  ultimately show ?thesis using m by blast
qed

theorem mask_all_trains_bias_and_lora_witness:
  "map_sum fst (\<lambda>m. map (\<lambda>np. (fst np, requires_grad (snd np))) (named_parameters m))
     (mark_only_lora_as_trainable adapted_tree ''all'')
   = Inr [(''q.weight'', False), (''q.bias'', True), (''q.lora_A.weight'', True),
          (''q.lora_R.weight'', True), (''q.lora_B.weight'', True), (''norm.weight'', False)]"
proof -
  from mask_all_trains_bias_and_lora [of adapted_tree]
  obtain model' where m: "mark_only_lora_as_trainable adapted_tree ''all'' = Inr model'"
    by blast
  define f where "f = (\<lambda>n (p::param). if sublist ''lora_'' n then p else p\<lparr>requires_grad := False\<rparr>)"
  define g where "g = (\<lambda>n (p::param). if sublist ''bias'' n then p\<lparr>requires_grad := True\<rparr> else p)"
  have m': "model' = map_parameters g [] (map_parameters f [] adapted_tree)"
    using m by (simp add: mark_only_lora_as_trainable_def f_def g_def)
  have np: "named_parameters model'
      = map (\<lambda>np. (fst np, g (fst np) (f (fst np) (snd np)))) (named_parameters adapted_tree)"
    by (simp add: m' named_parameters_def named_parameters_of_map_parameters comp_def)
  have names: "map (\<lambda>np. (fst np, requires_grad (g (fst np) (f (fst np) (snd np)))))
                 (named_parameters adapted_tree)
      = map (\<lambda>nb. (fst nb, if sublist ''bias'' (fst nb) then True
                            else if sublist ''lora_'' (fst nb) then snd nb else False))
          (map (\<lambda>np. (fst np, requires_grad (snd np))) (named_parameters adapted_tree))"
    by (simp add: f_def g_def comp_def)
  show ?thesis
    by (simp add: m np comp_def names [unfolded comp_def] adapted_parameters sublist_Cons_right
        prefix_Cons cong: if_cong)
qed

end
